theory Spec2Isabelle
  imports Main "HOL-Library.Word"
begin

section \<open>Single-precision values\<close>

text \<open>
  The fields of the vectors are Go \<^verbatim>\<open>float32\<close> values: IEEE-754 binary32. A value is a
  NaN, an infinity with its sign, or a finite number with its sign. The sign is the sign
  bit (\<open>True\<close> for negative), so the two zeros are distinct values. The magnitude of a
  finite number is counted in units of \<open>2^-149\<close>, the smallest positive binary32 number:
  every finite binary32 number is a whole multiple of it, \<open>1.0\<close> is \<open>2^149\<close> units, and
  the largest finite number is \<open>(2^24 - 1) * 2^253\<close> units. There is one NaN: its sign
  and payload bits, which Go leaves to the hardware, are not part of a value. They are
  modelled apart, on bit patterns, for the sum (\<open>addss\<close>).
\<close>

datatype float32 = NaN | Infty bool | Finite bool nat

text \<open>The number of binary digits of a natural number.\<close>

fun bitlen :: "nat \<Rightarrow> nat" where
  "bitlen n = (if n = 0 then 0 else Suc (bitlen (n div 2)))"

declare bitlen.simps [simp del]

text \<open>
  A magnitude is a binary32 magnitude when it has at most 24 significant bits and lies
  below \<open>2^24 * 2^253\<close>: all the bits under its leading 24 are zero.
\<close>

definition is_magnitude :: "nat \<Rightarrow> bool" where
  "is_magnitude m = (m < 2 ^ 277 \<and> 2 ^ (bitlen m - 24) dvd m)"

fun is_float32 :: "float32 \<Rightarrow> bool" where
  "is_float32 NaN = True"
| "is_float32 (Infty s) = True"
| "is_float32 (Finite s m) = is_magnitude m"

text \<open>
  The value of a bit pattern (Go's \<^verbatim>\<open>math.Float32frombits\<close>): sign bit, eight exponent
  bits \<open>e\<close>, 23 fraction bits \<open>m\<close>. An exponent of 255 is an infinity or a NaN, an
  exponent of 0 a zero or a subnormal number of \<open>m\<close> units, and any other exponent the
  normal number \<open>(2^23 + m) * 2^(e - 1)\<close> units, that is \<open>(1 + m / 2^23) * 2^(e - 127)\<close>.
  The binary32 values are exactly the values of the bit patterns (lemmas
  \<open>is_float32_f32_of_bits\<close> and \<open>is_float32_bits\<close> below).
\<close>

definition f32_of_fields :: "bool \<Rightarrow> nat \<Rightarrow> nat \<Rightarrow> float32" where
  "f32_of_fields s e m =
     (if e = 255 then (if m = 0 then Infty s else NaN)
      else if e = 0 then Finite s m
      else Finite s ((2 ^ 23 + m) * 2 ^ (e - 1)))"

definition f32_of_bits :: "32 word \<Rightarrow> float32" where
  "f32_of_bits w =
     f32_of_fields (2 ^ 31 \<le> unat w) (unat w div 2 ^ 23 mod 2 ^ 8) (unat w mod 2 ^ 23)"

text \<open>The signed value of a finite number, in units of \<open>2^-149\<close>.\<close>

definition sval :: "bool \<Rightarrow> nat \<Rightarrow> int" where
  "sval s m = (if s then - int m else int m)"

text \<open>
  Rounding to nearest, ties to even (the only rounding Go uses). \<open>round_even p q\<close> is the
  integer nearest to \<open>p / q\<close>. \<open>f32_round s p q\<close> is the binary32 number nearest to the
  exact magnitude \<open>p / q\<close> (in units of \<open>2^-149\<close>), with sign \<open>s\<close>: binary32 numbers around
  a magnitude of \<open>24 + k\<close> bits are \<open>2^k\<close> apart, and a result of \<open>2^24 * 2^253\<close> or more
  overflows to infinity.
\<close>

definition round_even :: "nat \<Rightarrow> nat \<Rightarrow> nat" where
  "round_even p q =
     (let fl = p div q; r = p mod q
      in if 2 * r < q then fl
         else if q < 2 * r then fl + 1
         else if even fl then fl else fl + 1)"

definition f32_round :: "bool \<Rightarrow> nat \<Rightarrow> nat \<Rightarrow> float32" where
  "f32_round s p q =
     (let k = bitlen (p div q) - 24;
          m = round_even p (q * 2 ^ k) * 2 ^ k
      in if m < 2 ^ 277 then Finite s m else Infty s)"

text \<open>
  The operators of Go on \<^verbatim>\<open>float32\<close>: unary \<^verbatim>\<open>-\<close>, \<^verbatim>\<open>+\<close>, \<^verbatim>\<open>-\<close>, \<^verbatim>\<open>*\<close>, \<^verbatim>\<open>/\<close> and \<^verbatim>\<open>==\<close>. Each
  one computes the exact result and rounds it once; none of them panics (only integer
  division by zero does). An exact zero sum is \<open>-0\<close> only when both operands are \<open>-0\<close>.
  Every operation is rounded on its own, as on a build that does not fuse \<^verbatim>\<open>x*y + z\<close>
  into one rounding; Go allows fusing, and the cross products are also given on a build
  that fuses (\<open>fmulsub\<close>, \<open>Vec3_Cross_build\<close>).
\<close>

fun fneg :: "float32 \<Rightarrow> float32" where
  "fneg NaN = NaN"
| "fneg (Infty s) = Infty (\<not> s)"
| "fneg (Finite s m) = Finite (\<not> s) m"

fun fadd :: "float32 \<Rightarrow> float32 \<Rightarrow> float32" where
  "fadd NaN y = NaN"
| "fadd x NaN = NaN"
| "fadd (Infty s) (Infty t) = (if s = t then Infty s else NaN)"
| "fadd (Infty s) (Finite t n) = Infty s"
| "fadd (Finite s m) (Infty t) = Infty t"
| "fadd (Finite s m) (Finite t n) =
     (let r = sval s m + sval t n
      in if r = 0 then Finite (s \<and> t) 0 else f32_round (r < 0) (nat \<bar>r\<bar>) 1)"

fun fsub :: "float32 \<Rightarrow> float32 \<Rightarrow> float32" where
  "fsub NaN y = NaN"
| "fsub x NaN = NaN"
| "fsub (Infty s) (Infty t) = (if s = t then NaN else Infty s)"
| "fsub (Infty s) (Finite t n) = Infty s"
| "fsub (Finite s m) (Infty t) = Infty (\<not> t)"
| "fsub (Finite s m) (Finite t n) =
     (let r = sval s m - sval t n
      in if r = 0 then Finite (s \<and> \<not> t) 0 else f32_round (r < 0) (nat \<bar>r\<bar>) 1)"

fun fmul :: "float32 \<Rightarrow> float32 \<Rightarrow> float32" where
  "fmul NaN y = NaN"
| "fmul x NaN = NaN"
| "fmul (Infty s) (Infty t) = Infty (s \<noteq> t)"
| "fmul (Infty s) (Finite t n) = (if n = 0 then NaN else Infty (s \<noteq> t))"
| "fmul (Finite s m) (Infty t) = (if m = 0 then NaN else Infty (s \<noteq> t))"
| "fmul (Finite s m) (Finite t n) = f32_round (s \<noteq> t) (m * n) (2 ^ 149)"

fun fdiv :: "float32 \<Rightarrow> float32 \<Rightarrow> float32" where
  "fdiv NaN y = NaN"
| "fdiv x NaN = NaN"
| "fdiv (Infty s) (Infty t) = NaN"
| "fdiv (Infty s) (Finite t n) = Infty (s \<noteq> t)"
| "fdiv (Finite s m) (Infty t) = Finite (s \<noteq> t) 0"
| "fdiv (Finite s m) (Finite t n) =
     (if n = 0 then (if m = 0 then NaN else Infty (s \<noteq> t))
      else f32_round (s \<noteq> t) (m * 2 ^ 149) n)"

fun feq :: "float32 \<Rightarrow> float32 \<Rightarrow> bool" where
  "feq NaN y = False"
| "feq x NaN = False"
| "feq (Infty s) (Infty t) = (s = t)"
| "feq (Infty s) (Finite t n) = False"
| "feq (Finite s m) (Infty t) = False"
| "feq (Finite s m) (Finite t n) = (sval s m = sval t n)"

text \<open>
  The fused multiply-subtract: \<open>fmulsub x y z\<close> is \<open>x*y - z\<close> with the product kept exact
  and one rounding at the end. Go lets an implementation compute \<^verbatim>\<open>x*y - z\<close> so; a
  build that does gives \<^verbatim>\<open>x*y - u*v\<close> as \<open>fmulsub x y (fmul u v)\<close> where a build that
  does not gives \<open>fsub (fmul x y) (fmul u v)\<close>.
\<close>

fun fmulsub :: "float32 \<Rightarrow> float32 \<Rightarrow> float32 \<Rightarrow> float32" where
  "fmulsub NaN y z = NaN"
| "fmulsub x NaN z = NaN"
| "fmulsub x y NaN = NaN"
| "fmulsub (Infty s) (Infty t) (Infty u) = (if (s \<noteq> t) = u then NaN else Infty (s \<noteq> t))"
| "fmulsub (Infty s) (Infty t) (Finite u k) = Infty (s \<noteq> t)"
| "fmulsub (Infty s) (Finite t n) (Infty u) =
     (if n = 0 \<or> (s \<noteq> t) = u then NaN else Infty (s \<noteq> t))"
| "fmulsub (Infty s) (Finite t n) (Finite u k) = (if n = 0 then NaN else Infty (s \<noteq> t))"
| "fmulsub (Finite s m) (Infty t) (Infty u) =
     (if m = 0 \<or> (s \<noteq> t) = u then NaN else Infty (s \<noteq> t))"
| "fmulsub (Finite s m) (Infty t) (Finite u k) = (if m = 0 then NaN else Infty (s \<noteq> t))"
| "fmulsub (Finite s m) (Finite t n) (Infty u) = Infty (\<not> u)"
| "fmulsub (Finite s m) (Finite t n) (Finite u k) =
     (let r = sval s m * sval t n - sval u k * 2 ^ 149
      in if r = 0 then Finite ((s \<noteq> t) \<and> \<not> u) 0
         else f32_round (r < 0) (nat \<bar>r\<bar>) (2 ^ 149))"

text \<open>The constants \<^verbatim>\<open>0.0\<close> and \<^verbatim>\<open>1.0\<close> (and the untyped \<^verbatim>\<open>1\<close>) of the source.\<close>

definition f32_0 :: float32 where
  "f32_0 = Finite False 0"

definition f32_1 :: float32 where
  "f32_1 = Finite False (2 ^ 149)"

text \<open>Classes of values the properties speak of.\<close>

fun is_NaN :: "float32 \<Rightarrow> bool" where
  "is_NaN NaN = True"
| "is_NaN (Infty s) = False"
| "is_NaN (Finite s m) = False"

fun is_Inf_or_NaN :: "float32 \<Rightarrow> bool" where
  "is_Inf_or_NaN NaN = True"
| "is_Inf_or_NaN (Infty s) = True"
| "is_Inf_or_NaN (Finite s m) = False"

fun is_zero :: "float32 \<Rightarrow> bool" where
  "is_zero NaN = False"
| "is_zero (Infty s) = False"
| "is_zero (Finite s m) = (m = 0)"

fun sign_bit :: "float32 \<Rightarrow> bool" where
  "sign_bit NaN = False"
| "sign_bit (Infty s) = s"
| "sign_bit (Finite s m) = s"

subsection \<open>The bits of a result\<close>

text \<open>
  \<open>f32_bits\<close> is the bit pattern of a value that is not NaN (the inverse of
  \<open>f32_of_bits\<close>, lemmas \<open>f32_bits_f32_of_bits\<close> and \<open>f32_of_bits_f32_bits\<close>). Go does not
  say which NaN an operation returns. On amd64 the sum \<^verbatim>\<open>x + y\<close> is the instruction
  \<^verbatim>\<open>ADDSS\<close>: it returns its first operand, quieted (fraction bit 22 set), when that is a
  NaN, else its second operand, quieted, when that is a NaN, and the default NaN
  \<^verbatim>\<open>0xFFC00000\<close> for \<open>\<infinity> + (-\<infinity>)\<close>. Addition commutes, so the compiler is free to make either
  of \<open>x\<close> and \<open>y\<close> the first operand: \<open>go_add swap x y\<close> is the sum with the operands in
  the order of the source, or swapped. Either way its value is \<open>fadd\<close> of the values of
  \<open>x\<close> and \<open>y\<close> (lemma \<open>f32_of_bits_go_add\<close>).
\<close>

definition fields_of_magnitude :: "nat \<Rightarrow> nat \<times> nat" where
  "fields_of_magnitude m =
     (if m < 2 ^ 23 then (0, m)
      else let k = bitlen m - 24 in (k + 1, m div 2 ^ k - 2 ^ 23))"

definition bits_of_fields :: "bool \<Rightarrow> nat \<Rightarrow> nat \<Rightarrow> 32 word" where
  "bits_of_fields s e m = word_of_nat ((if s then 2 ^ 31 else 0) + e * 2 ^ 23 + m)"

fun f32_bits :: "float32 \<Rightarrow> 32 word" where
  "f32_bits NaN = 0xFFC00000"
| "f32_bits (Infty s) = bits_of_fields s 255 0"
| "f32_bits (Finite s m) = (case fields_of_magnitude m of (e, f) \<Rightarrow> bits_of_fields s e f)"

definition quiet :: "32 word \<Rightarrow> 32 word" where
  "quiet w = (if 2 ^ 22 \<le> unat w mod 2 ^ 23 then w else w + 0x400000)"

definition addss :: "32 word \<Rightarrow> 32 word \<Rightarrow> 32 word" where
  "addss dst src =
     (if is_NaN (f32_of_bits dst) then quiet dst
      else if is_NaN (f32_of_bits src) then quiet src
      else f32_bits (fadd (f32_of_bits dst) (f32_of_bits src)))"

definition go_add :: "bool \<Rightarrow> 32 word \<Rightarrow> 32 word \<Rightarrow> 32 word" where
  "go_add swap x y = (if swap then addss y x else addss x y)"

text \<open>Two bit patterns that are the same, or are both patterns of a NaN.\<close>

definition same_bits_or_NaN :: "32 word \<Rightarrow> 32 word \<Rightarrow> bool" where
  "same_bits_or_NaN w w' = (w = w' \<or> (is_NaN (f32_of_bits w) \<and> is_NaN (f32_of_bits w')))"

subsection \<open>The scalar helpers of package math\<close>

text \<open>
  Modelled from the spec: \<^verbatim>\<open>math.Sqrt\<close> of \<^verbatim>\<open>github.com/drakmaniso/glam/math\<close> is not among
  the sources; the specification gives it standard IEEE-754 single-precision semantics,
  that is the correctly rounded square root: NaN for a NaN and for a negative number,
  the operand itself for a zero and for \<open>+\<infinity>\<close>. For a magnitude \<open>m\<close> the exact root is
  \<open>sqrt (m * 2^149)\<close> units; it is compared with the midpoint of its two neighbours by
  comparing squares. The properties below take the root of a zero and of \<open>1.0\<close> only.
\<close>

definition isqrt_step :: "nat \<Rightarrow> nat \<Rightarrow> nat" where
  "isqrt_step n h = (let r = 2 * h in if (r + 1) * (r + 1) \<le> n then r + 1 else r)"

fun isqrt :: "nat \<Rightarrow> nat" where
  "isqrt n = (if n < 2 then n else isqrt_step n (isqrt (n div 4)))"

declare isqrt.simps [simp del]

definition sqrt_round :: "nat \<Rightarrow> nat" where
  "sqrt_round m =
     (let n = m * 2 ^ 149;
          k = bitlen (isqrt n) - 24;
          fl = isqrt (n div 4 ^ k);
          mid = (2 * fl + 1) * (2 * fl + 1) * 4 ^ k
      in (if 4 * n < mid then fl
          else if mid < 4 * n then fl + 1
          else if even fl then fl else fl + 1) * 2 ^ k)"

fun Sqrt :: "float32 \<Rightarrow> float32" where
  "Sqrt NaN = NaN"
| "Sqrt (Infty s) = (if s then NaN else Infty False)"
| "Sqrt (Finite s m) =
     (if m = 0 then Finite s 0 else if s then NaN else Finite False (sqrt_round m))"

text \<open>
  \<^verbatim>\<open>math.Cos\<close> and \<^verbatim>\<open>math.Sin\<close> are not among the sources either, and IEEE-754 does not fix
  their results. The rotations take them as parameters \<open>Cos\<close> and \<open>Sin\<close>: what is proved
  of a rotation holds for every pair of functions, unless a hypothesis says otherwise.
\<close>

type_synonym mathfn = "float32 \<Rightarrow> float32"

section \<open>The vector types\<close>

text \<open>
  \<^verbatim>\<open>Vec3\<close> and \<^verbatim>\<open>Vec4\<close> are the structs of the source. The fields of the records share
  their names, so they are written with the record's name: \<open>Vec3.X a\<close>, \<open>Vec4.X a\<close>.
\<close>

record Vec3 =
  X :: float32
  Y :: float32
  Z :: float32

record Vec4 =
  X :: float32
  Y :: float32
  Z :: float32
  W :: float32

text \<open>
  Modelled from the spec: the declaration of \<^verbatim>\<open>Vec2\<close>, the result type of
  \<^verbatim>\<open>Vec3.Dehomogenized\<close>, is not among the sources; the specification gives it the two
  single-precision fields \<open>X\<close> and \<open>Y\<close>.
\<close>

record Vec2 =
  X :: float32
  Y :: float32

section \<open>Vec3\<close>

text \<open>
  A method with a value receiver is a function of the receiver. A method with a pointer
  receiver (\<^verbatim>\<open>func (a *Vec3) Add(b Vec3)\<close>) assigns to the fields of \<open>a\<close> one after the
  other: it is a function from the receiver before the call to the receiver after it,
  written as the same sequence of field updates. The other arguments are passed by
  value, so they do not change while the receiver does.
\<close>

definition Vec3_Homogenized :: "Vec3 \<Rightarrow> Vec4" where
  "Vec3_Homogenized a = \<lparr>Vec4.X = Vec3.X a, Y = Vec3.Y a, Z = Vec3.Z a, W = f32_1\<rparr>"

definition Vec3_HomogenizedAsDirection :: "Vec3 \<Rightarrow> Vec4" where
  "Vec3_HomogenizedAsDirection a = \<lparr>Vec4.X = Vec3.X a, Y = Vec3.Y a, Z = Vec3.Z a, W = f32_0\<rparr>"

definition Vec3_Dehomogenized :: "Vec3 \<Rightarrow> Vec2" where
  "Vec3_Dehomogenized a =
     \<lparr>Vec2.X = fdiv (Vec3.X a) (Vec3.Z a), Y = fdiv (Vec3.Y a) (Vec3.Z a)\<rparr>"

definition Vec3_Plus :: "Vec3 \<Rightarrow> Vec3 \<Rightarrow> Vec3" where
  "Vec3_Plus a b =
     \<lparr>Vec3.X = fadd (Vec3.X a) (Vec3.X b),
      Y = fadd (Vec3.Y a) (Vec3.Y b),
      Z = fadd (Vec3.Z a) (Vec3.Z b)\<rparr>"

definition Vec3_Add :: "Vec3 \<Rightarrow> Vec3 \<Rightarrow> Vec3" where
  "Vec3_Add a b =
     (let a = a\<lparr>Vec3.X := fadd (Vec3.X a) (Vec3.X b)\<rparr>;
          a = a\<lparr>Vec3.Y := fadd (Vec3.Y a) (Vec3.Y b)\<rparr>;
          a = a\<lparr>Vec3.Z := fadd (Vec3.Z a) (Vec3.Z b)\<rparr>
      in a)"

definition Vec3_Minus :: "Vec3 \<Rightarrow> Vec3 \<Rightarrow> Vec3" where
  "Vec3_Minus a b =
     \<lparr>Vec3.X = fsub (Vec3.X a) (Vec3.X b),
      Y = fsub (Vec3.Y a) (Vec3.Y b),
      Z = fsub (Vec3.Z a) (Vec3.Z b)\<rparr>"

definition Vec3_Subtract :: "Vec3 \<Rightarrow> Vec3 \<Rightarrow> Vec3" where
  "Vec3_Subtract a b =
     (let a = a\<lparr>Vec3.X := fsub (Vec3.X a) (Vec3.X b)\<rparr>;
          a = a\<lparr>Vec3.Y := fsub (Vec3.Y a) (Vec3.Y b)\<rparr>;
          a = a\<lparr>Vec3.Z := fsub (Vec3.Z a) (Vec3.Z b)\<rparr>
      in a)"

definition Vec3_Inverse :: "Vec3 \<Rightarrow> Vec3" where
  "Vec3_Inverse a = \<lparr>Vec3.X = fneg (Vec3.X a), Y = fneg (Vec3.Y a), Z = fneg (Vec3.Z a)\<rparr>"

definition Vec3_Invert :: "Vec3 \<Rightarrow> Vec3" where
  "Vec3_Invert a =
     (let a = a\<lparr>Vec3.X := fneg (Vec3.X a)\<rparr>;
          a = a\<lparr>Vec3.Y := fneg (Vec3.Y a)\<rparr>;
          a = a\<lparr>Vec3.Z := fneg (Vec3.Z a)\<rparr>
      in a)"

definition Vec3_Times :: "Vec3 \<Rightarrow> float32 \<Rightarrow> Vec3" where
  "Vec3_Times a s =
     \<lparr>Vec3.X = fmul (Vec3.X a) s, Y = fmul (Vec3.Y a) s, Z = fmul (Vec3.Z a) s\<rparr>"

definition Vec3_Multiply :: "Vec3 \<Rightarrow> float32 \<Rightarrow> Vec3" where
  "Vec3_Multiply a s =
     (let a = a\<lparr>Vec3.X := fmul (Vec3.X a) s\<rparr>;
          a = a\<lparr>Vec3.Y := fmul (Vec3.Y a) s\<rparr>;
          a = a\<lparr>Vec3.Z := fmul (Vec3.Z a) s\<rparr>
      in a)"

definition Vec3_Slash :: "Vec3 \<Rightarrow> float32 \<Rightarrow> Vec3" where
  "Vec3_Slash a s =
     \<lparr>Vec3.X = fdiv (Vec3.X a) s, Y = fdiv (Vec3.Y a) s, Z = fdiv (Vec3.Z a) s\<rparr>"

definition Vec3_Divide :: "Vec3 \<Rightarrow> float32 \<Rightarrow> Vec3" where
  "Vec3_Divide a s =
     (let a = a\<lparr>Vec3.X := fdiv (Vec3.X a) s\<rparr>;
          a = a\<lparr>Vec3.Y := fdiv (Vec3.Y a) s\<rparr>;
          a = a\<lparr>Vec3.Z := fdiv (Vec3.Z a) s\<rparr>
      in a)"

definition Vec3_Cross :: "Vec3 \<Rightarrow> Vec3 \<Rightarrow> Vec3" where
  "Vec3_Cross a b =
     \<lparr>Vec3.X = fsub (fmul (Vec3.Y a) (Vec3.Z b)) (fmul (Vec3.Z a) (Vec3.Y b)),
      Y = fsub (fmul (Vec3.Z a) (Vec3.X b)) (fmul (Vec3.X a) (Vec3.Z b)),
      Z = fsub (fmul (Vec3.X a) (Vec3.Y b)) (fmul (Vec3.Y a) (Vec3.X b))\<rparr>"

definition Vec3_Dot :: "Vec3 \<Rightarrow> Vec3 \<Rightarrow> float32" where
  "Vec3_Dot a b =
     fadd (fadd (fmul (Vec3.X a) (Vec3.X b)) (fmul (Vec3.Y a) (Vec3.Y b)))
          (fmul (Vec3.Z a) (Vec3.Z b))"

definition Vec3_Length :: "Vec3 \<Rightarrow> float32" where
  "Vec3_Length a =
     Sqrt (fadd (fadd (fmul (Vec3.X a) (Vec3.X a)) (fmul (Vec3.Y a) (Vec3.Y a)))
                (fmul (Vec3.Z a) (Vec3.Z a)))"

definition Vec3_Normalized :: "Vec3 \<Rightarrow> Vec3" where
  "Vec3_Normalized a =
     (let length = Sqrt (fadd (fadd (fmul (Vec3.X a) (Vec3.X a)) (fmul (Vec3.Y a) (Vec3.Y a)))
                              (fmul (Vec3.Z a) (Vec3.Z a)))
      in \<lparr>Vec3.X = fdiv (Vec3.X a) length,
          Y = fdiv (Vec3.Y a) length,
          Z = fdiv (Vec3.Z a) length\<rparr>)"

definition Vec3_Normalize :: "Vec3 \<Rightarrow> Vec3" where
  "Vec3_Normalize a =
     (let length = Sqrt (fadd (fadd (fmul (Vec3.X a) (Vec3.X a)) (fmul (Vec3.Y a) (Vec3.Y a)))
                              (fmul (Vec3.Z a) (Vec3.Z a)));
          a = a\<lparr>Vec3.X := fdiv (Vec3.X a) length\<rparr>;
          a = a\<lparr>Vec3.Y := fdiv (Vec3.Y a) length\<rparr>;
          a = a\<lparr>Vec3.Z := fdiv (Vec3.Z a) length\<rparr>
      in a)"

text \<open>
  The rotations. \<^verbatim>\<open>-v.X*s\<close> is \<^verbatim>\<open>(-v.X)*s\<close> in Go, and sums associate to the left.
\<close>

definition Vec3_RotateX :: "mathfn \<Rightarrow> mathfn \<Rightarrow> Vec3 \<Rightarrow> float32 \<Rightarrow> Vec3" where
  "Vec3_RotateX Cos Sin v angle =
     (if feq angle f32_0 then v
      else let c = Cos angle; s = Sin angle
           in \<lparr>Vec3.X = Vec3.X v,
               Y = fsub (fmul (Vec3.Y v) c) (fmul (Vec3.Z v) s),
               Z = fadd (fmul (Vec3.Y v) s) (fmul (Vec3.Z v) c)\<rparr>)"

definition Vec3_RotateY :: "mathfn \<Rightarrow> mathfn \<Rightarrow> Vec3 \<Rightarrow> float32 \<Rightarrow> Vec3" where
  "Vec3_RotateY Cos Sin v angle =
     (if feq angle f32_0 then v
      else let c = Cos angle; s = Sin angle
           in \<lparr>Vec3.X = fadd (fmul (Vec3.X v) c) (fmul (Vec3.Z v) s),
               Y = Vec3.Y v,
               Z = fadd (fmul (fneg (Vec3.X v)) s) (fmul (Vec3.Z v) c)\<rparr>)"

definition Vec3_RotateZ :: "mathfn \<Rightarrow> mathfn \<Rightarrow> Vec3 \<Rightarrow> float32 \<Rightarrow> Vec3" where
  "Vec3_RotateZ Cos Sin v angle =
     (if feq angle f32_0 then v
      else let c = Cos angle; s = Sin angle
           in \<lparr>Vec3.X = fsub (fmul (Vec3.X v) c) (fmul (Vec3.Y v) s),
               Y = fadd (fmul (Vec3.X v) s) (fmul (Vec3.Y v) c),
               Z = Vec3.Z v\<rparr>)"

text \<open>
  \<^verbatim>\<open>var rm0, rm1, rm2 Vec3\<close> declares three zero vectors; the nine assignments then set
  their fields in the order of the source.
\<close>

definition Vec3_zero :: Vec3 where
  "Vec3_zero = \<lparr>Vec3.X = f32_0, Y = f32_0, Z = f32_0\<rparr>"

definition Vec3_RotateAxis :: "mathfn \<Rightarrow> mathfn \<Rightarrow> Vec3 \<Rightarrow> Vec3 \<Rightarrow> float32 \<Rightarrow> Vec3" where
  "Vec3_RotateAxis Cos Sin v axis angle =
     (let rm0 = Vec3_zero; rm1 = Vec3_zero; rm2 = Vec3_zero
      in if feq angle f32_0 then v
         else
           let c = Cos angle;
               s = Sin angle;
               onemc = fsub f32_1 c;
               u = Vec3_Normalized axis;
               rm0 = rm0\<lparr>Vec3.X := fadd (fmul (Vec3.X u) (Vec3.X u))
                                         (fmul c (fsub f32_1 (fmul (Vec3.X u) (Vec3.X u))))\<rparr>;
               rm0 = rm0\<lparr>Vec3.Y := fsub (fmul (fmul (Vec3.X u) (Vec3.Y u)) onemc)
                                         (fmul s (Vec3.Z u))\<rparr>;
               rm0 = rm0\<lparr>Vec3.Z := fadd (fmul (fmul (Vec3.X u) (Vec3.Z u)) onemc)
                                         (fmul s (Vec3.Z u))\<rparr>;
               rm1 = rm1\<lparr>Vec3.X := fadd (fmul (fmul (Vec3.X u) (Vec3.X u)) onemc)
                                         (fmul s (Vec3.Z u))\<rparr>;
               rm1 = rm1\<lparr>Vec3.Y := fadd (fmul (Vec3.Y u) (Vec3.Y u))
                                         (fmul c (fsub f32_1 (fmul (Vec3.Y u) (Vec3.Y u))))\<rparr>;
               rm1 = rm1\<lparr>Vec3.Z := fsub (fmul (fmul (Vec3.Y u) (Vec3.Z u)) onemc)
                                         (fmul s (Vec3.X u))\<rparr>;
               rm2 = rm2\<lparr>Vec3.X := fsub (fmul (fmul (Vec3.X u) (Vec3.Z u)) onemc)
                                         (fmul s (Vec3.Y u))\<rparr>;
               rm2 = rm2\<lparr>Vec3.Y := fadd (fmul (fmul (Vec3.Y u) (Vec3.Z u)) c)
                                         (fmul s (Vec3.X u))\<rparr>;
               rm2 = rm2\<lparr>Vec3.Z := fadd (fmul (Vec3.Z u) (Vec3.Z u))
                                         (fmul c (fsub f32_1 (fmul (Vec3.Z u) (Vec3.Z u))))\<rparr>
           in \<lparr>Vec3.X = Vec3_Dot v rm0, Y = Vec3_Dot v rm1, Z = Vec3_Dot v rm2\<rparr>)"

section \<open>Vec4\<close>

definition Vec4_Dehomogenized :: "Vec4 \<Rightarrow> Vec3" where
  "Vec4_Dehomogenized a =
     \<lparr>Vec3.X = fdiv (Vec4.X a) (Vec4.W a),
      Y = fdiv (Vec4.Y a) (Vec4.W a),
      Z = fdiv (Vec4.Z a) (Vec4.W a)\<rparr>"

definition Vec4_Plus :: "Vec4 \<Rightarrow> Vec4 \<Rightarrow> Vec4" where
  "Vec4_Plus a b =
     \<lparr>Vec4.X = fadd (Vec4.X a) (Vec4.X b),
      Y = fadd (Vec4.Y a) (Vec4.Y b),
      Z = fadd (Vec4.Z a) (Vec4.Z b),
      W = fadd (Vec4.W a) (Vec4.W b)\<rparr>"

definition Vec4_Add :: "Vec4 \<Rightarrow> Vec4 \<Rightarrow> Vec4" where
  "Vec4_Add a b =
     (let a = a\<lparr>Vec4.X := fadd (Vec4.X a) (Vec4.X b)\<rparr>;
          a = a\<lparr>Vec4.Y := fadd (Vec4.Y a) (Vec4.Y b)\<rparr>;
          a = a\<lparr>Vec4.Z := fadd (Vec4.Z a) (Vec4.Z b)\<rparr>;
          a = a\<lparr>Vec4.W := fadd (Vec4.W a) (Vec4.W b)\<rparr>
      in a)"

definition Vec4_Minus :: "Vec4 \<Rightarrow> Vec4 \<Rightarrow> Vec4" where
  "Vec4_Minus a b =
     \<lparr>Vec4.X = fsub (Vec4.X a) (Vec4.X b),
      Y = fsub (Vec4.Y a) (Vec4.Y b),
      Z = fsub (Vec4.Z a) (Vec4.Z b),
      W = fsub (Vec4.W a) (Vec4.W b)\<rparr>"

definition Vec4_Subtract :: "Vec4 \<Rightarrow> Vec4 \<Rightarrow> Vec4" where
  "Vec4_Subtract a b =
     (let a = a\<lparr>Vec4.X := fsub (Vec4.X a) (Vec4.X b)\<rparr>;
          a = a\<lparr>Vec4.Y := fsub (Vec4.Y a) (Vec4.Y b)\<rparr>;
          a = a\<lparr>Vec4.Z := fsub (Vec4.Z a) (Vec4.Z b)\<rparr>;
          a = a\<lparr>Vec4.W := fsub (Vec4.W a) (Vec4.W b)\<rparr>
      in a)"

definition Vec4_Inverse :: "Vec4 \<Rightarrow> Vec4" where
  "Vec4_Inverse a =
     \<lparr>Vec4.X = fneg (Vec4.X a), Y = fneg (Vec4.Y a), Z = fneg (Vec4.Z a),
      W = fneg (Vec4.W a)\<rparr>"

definition Vec4_Invert :: "Vec4 \<Rightarrow> Vec4" where
  "Vec4_Invert a =
     (let a = a\<lparr>Vec4.X := fneg (Vec4.X a)\<rparr>;
          a = a\<lparr>Vec4.Y := fneg (Vec4.Y a)\<rparr>;
          a = a\<lparr>Vec4.Z := fneg (Vec4.Z a)\<rparr>;
          a = a\<lparr>Vec4.W := fneg (Vec4.W a)\<rparr>
      in a)"

definition Vec4_Times :: "Vec4 \<Rightarrow> float32 \<Rightarrow> Vec4" where
  "Vec4_Times a s =
     \<lparr>Vec4.X = fmul (Vec4.X a) s, Y = fmul (Vec4.Y a) s, Z = fmul (Vec4.Z a) s,
      W = fmul (Vec4.W a) s\<rparr>"

definition Vec4_Multiply :: "Vec4 \<Rightarrow> float32 \<Rightarrow> Vec4" where
  "Vec4_Multiply a s =
     (let a = a\<lparr>Vec4.X := fmul (Vec4.X a) s\<rparr>;
          a = a\<lparr>Vec4.Y := fmul (Vec4.Y a) s\<rparr>;
          a = a\<lparr>Vec4.Z := fmul (Vec4.Z a) s\<rparr>;
          a = a\<lparr>Vec4.W := fmul (Vec4.W a) s\<rparr>
      in a)"

definition Vec4_Slash :: "Vec4 \<Rightarrow> float32 \<Rightarrow> Vec4" where
  "Vec4_Slash a s =
     \<lparr>Vec4.X = fdiv (Vec4.X a) s, Y = fdiv (Vec4.Y a) s, Z = fdiv (Vec4.Z a) s,
      W = fdiv (Vec4.W a) s\<rparr>"

definition Vec4_Divide :: "Vec4 \<Rightarrow> float32 \<Rightarrow> Vec4" where
  "Vec4_Divide a s =
     (let a = a\<lparr>Vec4.X := fdiv (Vec4.X a) s\<rparr>;
          a = a\<lparr>Vec4.Y := fdiv (Vec4.Y a) s\<rparr>;
          a = a\<lparr>Vec4.Z := fdiv (Vec4.Z a) s\<rparr>;
          a = a\<lparr>Vec4.W := fdiv (Vec4.W a) s\<rparr>
      in a)"

definition Vec4_Cross :: "Vec4 \<Rightarrow> Vec4 \<Rightarrow> Vec4" where
  "Vec4_Cross a b =
     \<lparr>Vec4.X = fsub (fmul (Vec4.Y a) (Vec4.Z b)) (fmul (Vec4.Z a) (Vec4.Y b)),
      Y = fsub (fmul (Vec4.Z a) (Vec4.X b)) (fmul (Vec4.X a) (Vec4.Z b)),
      Z = fsub (fmul (Vec4.X a) (Vec4.Y b)) (fmul (Vec4.Y a) (Vec4.X b)),
      W = Vec4.W a\<rparr>"

definition Vec4_Dot :: "Vec4 \<Rightarrow> Vec4 \<Rightarrow> float32" where
  "Vec4_Dot a b =
     fadd (fadd (fadd (fmul (Vec4.X a) (Vec4.X b)) (fmul (Vec4.Y a) (Vec4.Y b)))
                (fmul (Vec4.Z a) (Vec4.Z b)))
          (fmul (Vec4.W a) (Vec4.W b))"

definition Vec4_Dot3 :: "Vec4 \<Rightarrow> Vec4 \<Rightarrow> float32" where
  "Vec4_Dot3 a b =
     fadd (fadd (fmul (Vec4.X a) (Vec4.X b)) (fmul (Vec4.Y a) (Vec4.Y b)))
          (fmul (Vec4.Z a) (Vec4.Z b))"

definition Vec4_Length :: "Vec4 \<Rightarrow> float32" where
  "Vec4_Length a =
     Sqrt (fadd (fadd (fadd (fmul (Vec4.X a) (Vec4.X a)) (fmul (Vec4.Y a) (Vec4.Y a)))
                      (fmul (Vec4.Z a) (Vec4.Z a)))
                (fmul (Vec4.W a) (Vec4.W a)))"

definition Vec4_Normalized :: "Vec4 \<Rightarrow> Vec4" where
  "Vec4_Normalized a =
     (let length = Sqrt (fadd (fadd (fadd (fmul (Vec4.X a) (Vec4.X a))
                                          (fmul (Vec4.Y a) (Vec4.Y a)))
                                    (fmul (Vec4.Z a) (Vec4.Z a)))
                              (fmul (Vec4.W a) (Vec4.W a)))
      in \<lparr>Vec4.X = fdiv (Vec4.X a) length,
          Y = fdiv (Vec4.Y a) length,
          Z = fdiv (Vec4.Z a) length,
          W = fdiv (Vec4.W a) length\<rparr>)"

definition Vec4_Normalize :: "Vec4 \<Rightarrow> Vec4" where
  "Vec4_Normalize a =
     (let length = Sqrt (fadd (fadd (fadd (fmul (Vec4.X a) (Vec4.X a))
                                          (fmul (Vec4.Y a) (Vec4.Y a)))
                                    (fmul (Vec4.Z a) (Vec4.Z a)))
                              (fmul (Vec4.W a) (Vec4.W a)));
          a = a\<lparr>Vec4.X := fdiv (Vec4.X a) length\<rparr>;
          a = a\<lparr>Vec4.Y := fdiv (Vec4.Y a) length\<rparr>;
          a = a\<lparr>Vec4.Z := fdiv (Vec4.Z a) length\<rparr>;
          a = a\<lparr>Vec4.W := fdiv (Vec4.W a) length\<rparr>
      in a)"

section \<open>The cross products on a build that fuses\<close>

text \<open>
  \<open>Vec3_Cross\<close> and \<open>Vec4_Cross\<close> above round each product before the subtraction, as a
  build does that does not fuse (amd64 by default). \<open>Vec3_Cross_build Fused\<close> and
  \<open>Vec4_Cross_build Fused\<close> are the same methods on a build that fuses the first product
  of each component with the subtraction; \<open>Unfused\<close> gives the methods above.
\<close>

datatype build = Unfused | Fused

definition Vec3_Cross_build :: "build \<Rightarrow> Vec3 \<Rightarrow> Vec3 \<Rightarrow> Vec3" where
  "Vec3_Cross_build bd a b =
     (case bd of
        Unfused \<Rightarrow> Vec3_Cross a b
      | Fused \<Rightarrow>
          \<lparr>Vec3.X = fmulsub (Vec3.Y a) (Vec3.Z b) (fmul (Vec3.Z a) (Vec3.Y b)),
           Y = fmulsub (Vec3.Z a) (Vec3.X b) (fmul (Vec3.X a) (Vec3.Z b)),
           Z = fmulsub (Vec3.X a) (Vec3.Y b) (fmul (Vec3.Y a) (Vec3.X b))\<rparr>)"

definition Vec4_Cross_build :: "build \<Rightarrow> Vec4 \<Rightarrow> Vec4 \<Rightarrow> Vec4" where
  "Vec4_Cross_build bd a b =
     (case bd of
        Unfused \<Rightarrow> Vec4_Cross a b
      | Fused \<Rightarrow>
          \<lparr>Vec4.X = fmulsub (Vec4.Y a) (Vec4.Z b) (fmul (Vec4.Z a) (Vec4.Y b)),
           Y = fmulsub (Vec4.Z a) (Vec4.X b) (fmul (Vec4.X a) (Vec4.Z b)),
           Z = fmulsub (Vec4.X a) (Vec4.Y b) (fmul (Vec4.Y a) (Vec4.X b)),
           W = Vec4.W a\<rparr>)"

section \<open>Plus and Add on bit patterns\<close>

text \<open>
  The vectors as the machine holds them, each field a pattern of 32 bits, and the
  methods \<open>Plus\<close> and \<open>Add\<close> of the source on them, with the sum of amd64. \<open>swap\<close> is the
  order in which the compiler gave the operands to \<^verbatim>\<open>ADDSS\<close> in that method.
\<close>

record Vec3_bits =
  X :: "32 word"
  Y :: "32 word"
  Z :: "32 word"

record Vec4_bits =
  X :: "32 word"
  Y :: "32 word"
  Z :: "32 word"
  W :: "32 word"

definition Vec3_of_bits :: "Vec3_bits \<Rightarrow> Vec3" where
  "Vec3_of_bits a =
     \<lparr>Vec3.X = f32_of_bits (Vec3_bits.X a), Y = f32_of_bits (Vec3_bits.Y a),
      Z = f32_of_bits (Vec3_bits.Z a)\<rparr>"

definition Vec4_of_bits :: "Vec4_bits \<Rightarrow> Vec4" where
  "Vec4_of_bits a =
     \<lparr>Vec4.X = f32_of_bits (Vec4_bits.X a), Y = f32_of_bits (Vec4_bits.Y a),
      Z = f32_of_bits (Vec4_bits.Z a), W = f32_of_bits (Vec4_bits.W a)\<rparr>"

definition Vec3_Plus_bits :: "bool \<Rightarrow> Vec3_bits \<Rightarrow> Vec3_bits \<Rightarrow> Vec3_bits" where
  "Vec3_Plus_bits swap a b =
     \<lparr>Vec3_bits.X = go_add swap (Vec3_bits.X a) (Vec3_bits.X b),
      Y = go_add swap (Vec3_bits.Y a) (Vec3_bits.Y b),
      Z = go_add swap (Vec3_bits.Z a) (Vec3_bits.Z b)\<rparr>"

definition Vec3_Add_bits :: "bool \<Rightarrow> Vec3_bits \<Rightarrow> Vec3_bits \<Rightarrow> Vec3_bits" where
  "Vec3_Add_bits swap a b =
     (let a = a\<lparr>Vec3_bits.X := go_add swap (Vec3_bits.X a) (Vec3_bits.X b)\<rparr>;
          a = a\<lparr>Vec3_bits.Y := go_add swap (Vec3_bits.Y a) (Vec3_bits.Y b)\<rparr>;
          a = a\<lparr>Vec3_bits.Z := go_add swap (Vec3_bits.Z a) (Vec3_bits.Z b)\<rparr>
      in a)"

definition Vec4_Plus_bits :: "bool \<Rightarrow> Vec4_bits \<Rightarrow> Vec4_bits \<Rightarrow> Vec4_bits" where
  "Vec4_Plus_bits swap a b =
     \<lparr>Vec4_bits.X = go_add swap (Vec4_bits.X a) (Vec4_bits.X b),
      Y = go_add swap (Vec4_bits.Y a) (Vec4_bits.Y b),
      Z = go_add swap (Vec4_bits.Z a) (Vec4_bits.Z b),
      W = go_add swap (Vec4_bits.W a) (Vec4_bits.W b)\<rparr>"

definition Vec4_Add_bits :: "bool \<Rightarrow> Vec4_bits \<Rightarrow> Vec4_bits \<Rightarrow> Vec4_bits" where
  "Vec4_Add_bits swap a b =
     (let a = a\<lparr>Vec4_bits.X := go_add swap (Vec4_bits.X a) (Vec4_bits.X b)\<rparr>;
          a = a\<lparr>Vec4_bits.Y := go_add swap (Vec4_bits.Y a) (Vec4_bits.Y b)\<rparr>;
          a = a\<lparr>Vec4_bits.Z := go_add swap (Vec4_bits.Z a) (Vec4_bits.Z b)\<rparr>;
          a = a\<lparr>Vec4_bits.W := go_add swap (Vec4_bits.W a) (Vec4_bits.W b)\<rparr>
      in a)"

section \<open>Notions used by the properties\<close>

text \<open>The \<open>X\<close>, \<open>Y\<close>, \<open>Z\<close> part of a \<^verbatim>\<open>Vec4\<close>.\<close>

definition Vec4_xyz :: "Vec4 \<Rightarrow> Vec3" where
  "Vec4_xyz a = \<lparr>Vec3.X = Vec4.X a, Y = Vec4.Y a, Z = Vec4.Z a\<rparr>"

text \<open>A vector all of whose fields are binary32 values.\<close>

definition Vec3_ok :: "Vec3 \<Rightarrow> bool" where
  "Vec3_ok v = (is_float32 (Vec3.X v) \<and> is_float32 (Vec3.Y v) \<and> is_float32 (Vec3.Z v))"

text \<open>
  Go's \<^verbatim>\<open>==\<close> on two \<^verbatim>\<open>Vec3\<close> structs compares the fields with \<^verbatim>\<open>==\<close>. It is not the
  identity of values: \<open>+0\<close> and \<open>-0\<close> compare equal, and a NaN compares unequal to itself.
\<close>

definition Vec3_eq :: "Vec3 \<Rightarrow> Vec3 \<Rightarrow> bool" where
  "Vec3_eq a b = (feq (Vec3.X a) (Vec3.X b) \<and> feq (Vec3.Y a) (Vec3.Y b) \<and> feq (Vec3.Z a) (Vec3.Z b))"

text \<open>Two values that compare equal under \<^verbatim>\<open>==\<close>, or are both NaN.\<close>

definition eq_or_NaN :: "float32 \<Rightarrow> float32 \<Rightarrow> bool" where
  "eq_or_NaN x y = (feq x y \<or> (is_NaN x \<and> is_NaN y))"

fun is_finite :: "float32 \<Rightarrow> bool" where
  "is_finite NaN = False"
| "is_finite (Infty s) = False"
| "is_finite (Finite s m) = True"

definition zero_or_NaN :: "float32 \<Rightarrow> bool" where
  "zero_or_NaN x = (is_zero x \<or> is_NaN x)"

text \<open>A value that is \<open>s\<close>, or a NaN.\<close>

definition this_or_NaN :: "float32 \<Rightarrow> float32 \<Rightarrow> bool" where
  "this_or_NaN s x = (x = s \<or> x = NaN)"

text \<open>
  The quotient of IEEE-754 by a zero \<open>z\<close>: NaN for a zero or a NaN dividend, and else the
  infinity whose sign is the exclusive or of the signs of \<open>x\<close> and \<open>z\<close>.
\<close>

definition quotient_by_zero :: "float32 \<Rightarrow> float32 \<Rightarrow> float32" where
  "quotient_by_zero x z =
     (if is_NaN x \<or> is_zero x then NaN else Infty (sign_bit x \<noteq> sign_bit z))"

subsection \<open>Sample values\<close>

text \<open>
  \<open>f32_half_pi\<close> is the binary32 number nearest to \<open>\<pi>/2\<close> (bits \<^verbatim>\<open>0x3FC90FDB\<close>,
  \<open>13176795 * 2^-23\<close>). The sine of that number is \<open>1 - 9.6e-16\<close> and its cosine is
  \<open>-4.3711388e-8\<close>; in single precision they are \<open>1.0\<close> and \<open>-12303662 * 2^-48\<close> (bits
  \<^verbatim>\<open>0xB33BBD2E\<close>). \<open>Cos_at\<close> and \<open>Sin_at\<close> are math functions with these values at that
  angle, the exact values \<open>1.0\<close> and \<open>\<plusminus>0\<close> at a zero, and NaN elsewhere; they stand for
  \<^verbatim>\<open>math.Cos\<close> and \<^verbatim>\<open>math.Sin\<close> where a property is run at the angle \<open>f32_half_pi\<close>.
\<close>

definition f32_half_pi :: float32 where
  "f32_half_pi = Finite False (13176795 * 2 ^ 126)"

definition f32_cos_half_pi :: float32 where
  "f32_cos_half_pi = Finite True (12303662 * 2 ^ 101)"

definition Cos_at :: mathfn where
  "Cos_at a = (if a = f32_half_pi then f32_cos_half_pi else if is_zero a then f32_1 else NaN)"

definition Sin_at :: mathfn where
  "Sin_at a = (if a = f32_half_pi then f32_1 else if is_zero a then a else NaN)"

definition f32_2 :: float32 where
  "f32_2 = Finite False (2 ^ 150)"

definition f32_3 :: float32 where
  "f32_3 = Finite False (3 * 2 ^ 149)"

definition f32_huge :: float32 where
  "f32_huge = Finite False (2 ^ 276)"

definition Vec3_e_z :: Vec3 where
  "Vec3_e_z = \<lparr>Vec3.X = f32_0, Y = f32_0, Z = f32_1\<rparr>"

definition Vec3_ones :: Vec3 where
  "Vec3_ones = \<lparr>Vec3.X = f32_1, Y = f32_1, Z = f32_1\<rparr>"

definition Vec3_123 :: Vec3 where
  "Vec3_123 = \<lparr>Vec3.X = f32_1, Y = f32_2, Z = f32_3\<rparr>"

definition Vec3_huge :: Vec3 where
  "Vec3_huge = \<lparr>Vec3.X = f32_huge, Y = f32_huge, Z = f32_0\<rparr>"

definition Vec4_1230 :: Vec4 where
  "Vec4_1230 = \<lparr>Vec4.X = f32_1, Y = f32_2, Z = f32_3, W = f32_0\<rparr>"

definition Vec3_special :: Vec3 where
  "Vec3_special = \<lparr>Vec3.X = NaN, Y = Finite True 0, Z = Infty True\<rparr>"

definition Vec4_zero :: Vec4 where
  "Vec4_zero = \<lparr>Vec4.X = f32_0, Y = f32_0, Z = f32_0, W = f32_0\<rparr>"

text \<open>
  \<open>f32_next_1\<close> is \<open>1 + 2^-23\<close>, the number after \<open>1.0\<close>. The two NaN patterns of
  \<open>Vec4_bits_a\<close> and \<open>Vec4_bits_b\<close> are quiet NaNs with the payloads 1 and 2, the second
  with the sign bit set.
\<close>

definition f32_next_1 :: float32 where
  "f32_next_1 = Finite False (8388609 * 2 ^ 126)"

definition Vec3_0yy :: Vec3 where
  "Vec3_0yy = \<lparr>Vec3.X = f32_0, Y = f32_next_1, Z = f32_next_1\<rparr>"

definition Vec3_120 :: Vec3 where
  "Vec3_120 = \<lparr>Vec3.X = f32_1, Y = f32_2, Z = f32_0\<rparr>"

definition Vec4_bits_a :: Vec4_bits where
  "Vec4_bits_a = \<lparr>Vec4_bits.X = 0x7FC00001, Y = 0x3F800000, Z = 0x40000000, W = 0x40400000\<rparr>"

definition Vec4_bits_b :: Vec4_bits where
  "Vec4_bits_b = \<lparr>Vec4_bits.X = 0xFFC00002, Y = 0x3F800000, Z = 0x3F800000, W = 0x3F800000\<rparr>"

definition Vec3_bits_a :: Vec3_bits where
  "Vec3_bits_a = \<lparr>Vec3_bits.X = 0x7FC00001, Y = 0x3F800000, Z = 0x40000000\<rparr>"

definition Vec3_bits_b :: Vec3_bits where
  "Vec3_bits_b = \<lparr>Vec3_bits.X = 0xFFC00002, Y = 0x3F800000, Z = 0x3F800000\<rparr>"

section \<open>Facts about single-precision arithmetic\<close>

subsection \<open>Rounding\<close>

lemma bitlen_0: "bitlen 0 = 0"
  by (simp add: bitlen.simps)

lemma bitlen_le_iff: "bitlen n \<le> k \<longleftrightarrow> n < 2 ^ k"
proof (induction n arbitrary: k rule: bitlen.induct)
  case (1 n)
  show ?case
  proof (cases "n = 0")
    case True
    then show ?thesis by (simp add: bitlen.simps)
  next
    case False
    show ?thesis
    proof (cases k)
      case 0
      with False show ?thesis by (simp add: bitlen.simps)
    next
      case (Suc j)
      have "bitlen n = Suc (bitlen (n div 2))" using False by (simp add: bitlen.simps)
      moreover have "bitlen (n div 2) \<le> j \<longleftrightarrow> n div 2 < 2 ^ j" using 1 False by blast
      moreover have "n div 2 < 2 ^ j \<longleftrightarrow> n < 2 ^ Suc j" by auto
      ultimately show ?thesis using Suc by simp
    qed
  qed
qed

lemma bitlen_ge_iff: "k < bitlen n \<longleftrightarrow> 2 ^ k \<le> n"
  using bitlen_le_iff [of n k] by auto

lemma magnitude_dvd:
  assumes "m < 2 ^ (24 + k)" "2 ^ k dvd m"
  shows "2 ^ (bitlen m - 24) dvd m"
proof -
  have "bitlen m \<le> 24 + k" using assms(1) by (simp add: bitlen_le_iff)
  then have "bitlen m - 24 \<le> k" by simp
  then have "(2::nat) ^ (bitlen m - 24) dvd 2 ^ k" by (rule le_imp_power_dvd)
  then show ?thesis using assms(2) by (rule dvd_trans)
qed

lemma round_even_0: "round_even 0 q = 0"
  by (simp add: round_even_def)

lemma round_even_exact: "0 < q \<Longrightarrow> round_even (j * q) q = j"
  by (simp add: round_even_def)

lemma round_even_le: "0 < q \<Longrightarrow> round_even p q \<le> p div q + 1"
  by (simp add: round_even_def Let_def)

lemma f32_round_0: "f32_round s 0 q = Finite s 0"
  by (simp add: f32_round_def bitlen_0 round_even_0)

text \<open>A quotient that is a binary32 magnitude is not changed by rounding.\<close>

lemma f32_round_exact:
  assumes "is_magnitude m" "0 < q"
  shows "f32_round s (m * q) q = Finite s m"
proof -
  define k where "k = bitlen m - 24"
  from assms(1) have lt: "m < 2 ^ 277" and "2 ^ k dvd m"
    by (simp_all add: is_magnitude_def k_def)
  then obtain j where j: "m = j * 2 ^ k" by (auto elim: dvdE simp: mult.commute)
  have "m * q = j * (q * 2 ^ k)" by (simp add: j)
  moreover have "round_even (j * (q * 2 ^ k)) (q * 2 ^ k) = j"
    using assms(2) by (intro round_even_exact) simp
  ultimately have r: "round_even (m * q) (q * 2 ^ k) = j" by (simp only:)
  have d: "m * q div q = m" using assms(2) by simp
  have "f32_round s (m * q) q =
          (if j * 2 ^ k < 2 ^ 277 then Finite s (j * 2 ^ k) else Infty s)"
    unfolding f32_round_def d k_def [symmetric] Let_def r ..
  also have "\<dots> = Finite s m" using lt by (simp add: j [symmetric])
  finally show ?thesis .
qed

text \<open>Rounding always lands on a binary32 value.\<close>

lemma is_float32_f32_round:
  assumes "0 < q"
  shows "is_float32 (f32_round s p q)"
proof -
  define k where "k = bitlen (p div q) - 24"
  define M where "M = round_even p (q * 2 ^ k)"
  have "bitlen (p div q) \<le> 24 + k" by (simp add: k_def)
  then have "p div q < 2 ^ (24 + k)" by (simp add: bitlen_le_iff)
  then have "p div q div 2 ^ k < 2 ^ 24"
    by (simp add: less_mult_imp_div_less power_add)
  then have "p div (q * 2 ^ k) < 2 ^ 24" by (simp add: div_mult2_eq)
  moreover have "M \<le> p div (q * 2 ^ k) + 1"
    unfolding M_def using assms by (intro round_even_le) simp
  ultimately have M: "M \<le> 2 ^ 24" by simp
  have dvd: "2 ^ (bitlen (M * 2 ^ k) - 24) dvd M * 2 ^ k"
  proof (cases "M = 2 ^ 24")
    case True
    then have "M * 2 ^ k = 2 ^ 23 * 2 ^ Suc k" by simp
    moreover have "(2::nat) ^ 23 * 2 ^ Suc k < 2 ^ (24 + Suc k)" by (simp add: power_add)
    ultimately show ?thesis using magnitude_dvd [of "M * 2 ^ k" "Suc k"] by simp
  next
    case False
    with M have "M < 2 ^ 24" by simp
    then have "M * 2 ^ k < 2 ^ (24 + k)" by (simp add: power_add)
    then show ?thesis using magnitude_dvd [of "M * 2 ^ k" k] by simp
  qed
  show ?thesis
    using dvd
    by (simp add: f32_round_def k_def [symmetric] M_def [symmetric] is_magnitude_def Let_def)
qed

lemma fneg_f32_round: "fneg (f32_round s p q) = f32_round (\<not> s) p q"
  by (simp add: f32_round_def Let_def)

lemma feq_f32_round: "feq (f32_round s p q) (f32_round s p q)"
  by (simp add: f32_round_def Let_def)

text \<open>
  \<open>f32_round\<close> is the rounding of IEEE-754: \<open>round_even\<close> returns a nearest integer, a
  finite result of \<open>f32_round\<close> is a binary32 magnitude nearest to the exact quotient
  among all binary32 magnitudes, and the result is finite exactly when the quotient lies
  below \<open>(2^24 - 1/2) * 2^253\<close>, the midpoint between the largest finite magnitude and
  \<open>2^277\<close>.
\<close>

lemma round_even_nearest:
  assumes "0 < q"
  shows "\<bar>int (round_even p q) * int q - int p\<bar> \<le> \<bar>int j * int q - int p\<bar>"
proof -
  define fl where "fl = p div q"
  define r where "r = p mod q"
  have p: "int p = int fl * int q + int r"
    by (simp add: fl_def r_def flip: of_nat_mult of_nat_add)
  have r: "int r < int q" using assms by (simp add: r_def)
  have near: "\<bar>int fl * int q - int p\<bar> = int r" "\<bar>(int fl + 1) * int q - int p\<bar> = int q - int r"
    using r by (simp_all add: p algebra_simps)
  have far: "int r \<le> \<bar>int j * int q - int p\<bar> \<and> int q - int r \<le> \<bar>int j * int q - int p\<bar>
      \<or> j = fl \<or> j = fl + 1"
  proof (cases "j \<le> fl")
    case True
    show ?thesis
    proof (cases "j = fl")
      case False
      with True have "j + 1 \<le> fl" by simp
      then have "int (j + 1) * int q \<le> int fl * int q"
        by (intro mult_right_mono) simp_all
      then have "int q + int r \<le> int p - int j * int q" by (simp add: p algebra_simps)
      then show ?thesis using r by simp
    qed simp
  next
    case False
    show ?thesis
    proof (cases "j = fl + 1")
      case nj: False
      with False have "fl + 2 \<le> j" by simp
      then have "int (fl + 2) * int q \<le> int j * int q"
        by (intro mult_right_mono) simp_all
      then have "2 * int q - int r \<le> int j * int q - int p" by (simp add: p algebra_simps)
      then show ?thesis using r by simp
    qed simp
  qed
  have M: "round_even p q = fl \<and> int r \<le> int q - int r \<or>
           round_even p q = fl + 1 \<and> int q - int r \<le> int r"
    by (auto simp: round_even_def Let_def fl_def [symmetric] r_def [symmetric])
  from M far near show ?thesis
    by (elim disjE conjE) (simp_all add: algebra_simps)
qed

lemma f32_round_nearest:
  assumes q: "0 < q" and res: "f32_round s p q = Finite t m" and m': "is_magnitude m'"
  shows "t = s \<and> \<bar>int m * int q - int p\<bar> \<le> \<bar>int m' * int q - int p\<bar>"
proof -
  define k where "k = bitlen (p div q) - 24"
  define M where "M = round_even p (q * 2 ^ k)"
  from res have t: "t = s" and m: "m = M * 2 ^ k"
    by (auto simp: f32_round_def Let_def k_def M_def split: if_splits)
  have Q: "0 < q * 2 ^ k" using q by simp
  have near: "\<bar>int M * int (q * 2 ^ k) - int p\<bar> \<le> \<bar>int j * int (q * 2 ^ k) - int p\<bar>" for j
    unfolding M_def using Q by (rule round_even_nearest)
  have mq: "int m * int q = int M * int (q * 2 ^ k)" by (simp add: m)
  have "\<bar>int m * int q - int p\<bar> \<le> \<bar>int m' * int q - int p\<bar>"
  proof (cases "2 ^ k dvd m'")
    case True
    then obtain j where "m' = j * 2 ^ k" by (auto elim: dvdE simp: mult.commute)
    then have "int m' * int q = int j * int (q * 2 ^ k)" by simp
    with near [of j] mq show ?thesis by (simp only:)
  next
    case False
    have dv: "2 ^ (bitlen m' - 24) dvd m'" using m' by (simp add: is_magnitude_def)
    have "\<not> k \<le> bitlen m' - 24"
    proof
      assume "k \<le> bitlen m' - 24"
      then have "(2::nat) ^ k dvd 2 ^ (bitlen m' - 24)" by (rule le_imp_power_dvd)
      then have "2 ^ k dvd m'" using dv by (rule dvd_trans)
      with False show False by simp
    qed
    then have lt: "bitlen m' - 24 < k" by simp
    then have "bitlen m' \<le> 23 + k" by simp
    then have m'_lt: "m' < 2 ^ (23 + k)" by (simp add: bitlen_le_iff)
    from lt have "23 + k < bitlen (p div q)" by (simp add: k_def)
    then have "2 ^ (23 + k) \<le> p div q" by (simp add: bitlen_ge_iff)
    then have "2 ^ (23 + k) * q \<le> p div q * q" by (rule mult_le_mono1)
    also have "\<dots> \<le> p" by simp
    finally have "2 ^ 23 * (q * 2 ^ k) \<le> p" by (simp add: power_add mult_ac)
    then have B: "int (2 ^ 23) * int (q * 2 ^ k) \<le> int p"
      unfolding of_nat_mult [symmetric] of_nat_le_iff .
    from m'_lt q have "m' * q < 2 ^ (23 + k) * q" by simp
    then have "m' * q < 2 ^ 23 * (q * 2 ^ k)" by (simp add: power_add mult_ac)
    then have "int m' * int q < int (2 ^ 23) * int (q * 2 ^ k)"
      unfolding of_nat_mult [symmetric] of_nat_less_iff .
    with B near [of "2 ^ 23"] show ?thesis unfolding mq by linarith
  qed
  with t show ?thesis by simp
qed

lemma f32_round_finite_iff:
  assumes q: "0 < q"
  shows "(\<exists>m. f32_round s p q = Finite s m) \<longleftrightarrow> 2 * p < (2 ^ 25 - 1) * 2 ^ 253 * q"
proof -
  define L where "L = p div q"
  define k where "k = bitlen L - 24"
  define Q where "Q = q * 2 ^ k"
  define fl where "fl = p div Q"
  define r where "r = p mod Q"
  define M where "M = round_even p Q"
  have Qpos: "0 < Q" using q by (simp add: Q_def)
  have p: "p = fl * Q + r" by (simp add: fl_def r_def)
  have r: "r < Q" using Qpos by (simp add: r_def)
  have fin: "(\<exists>m. f32_round s p q = Finite s m) \<longleftrightarrow> M * 2 ^ k < 2 ^ 277"
    by (auto simp: f32_round_def Let_def k_def L_def Q_def M_def)
  have M: "M = (if 2 * r < Q then fl else if Q < 2 * r then fl + 1
                else if even fl then fl else fl + 1)"
    by (simp add: M_def round_even_def Let_def fl_def r_def)
  have M_bounds: "fl \<le> M" "M \<le> fl + 1" by (simp_all add: M)
  have fl: "fl = L div 2 ^ k" by (simp add: fl_def Q_def L_def div_mult2_eq)
  have Lq: "L * q \<le> p" "p < (L + 1) * q"
    using q by (simp_all add: L_def) (metis Suc_eq_plus1 dividend_less_div_times mult.commute mult_Suc)
  have "bitlen L \<le> 24 + k" by (simp add: k_def)
  then have L_lt: "L < 2 ^ (24 + k)" by (simp add: bitlen_le_iff)
  then have "L < 2 ^ 24 * 2 ^ k" by (simp add: power_add)
  then have fl_lt: "fl < 2 ^ 24" unfolding fl by (simp add: less_mult_imp_div_less)
  have L_ge: "2 ^ (23 + k) \<le> L" if "0 < k"
  proof -
    from that have "23 + k < bitlen L" by (simp add: k_def)
    then show ?thesis by (simp add: bitlen_ge_iff)
  qed
  have fl_ge: "2 ^ 23 \<le> fl" if "0 < k"
  proof -
    have "2 ^ 23 * 2 ^ k \<le> L" using L_ge [OF that] by (simp add: power_add)
    then show ?thesis unfolding fl by (simp add: less_eq_div_iff_mult_less_eq)
  qed
  consider "k < 253" | "k = 253" | "253 < k" by linarith
  then show ?thesis
  proof cases
    case 1
    have "M * 2 ^ k \<le> 2 ^ 24 * 2 ^ k" using M_bounds(2) fl_lt by simp
    also have "\<dots> = 2 ^ (24 + k)" by (simp add: power_add)
    also have "\<dots> < (2::nat) ^ 277" using 1 by (intro power_strict_increasing) simp_all
    finally have lhs: "M * 2 ^ k < 2 ^ 277" .
    have "(2::nat) ^ (24 + k) \<le> 2 ^ 276" using 1 by (intro power_increasing) simp_all
    with L_lt have "L + 1 \<le> 2 ^ 276" by simp
    then have "(L + 1) * q \<le> 2 ^ 276 * q" by (rule mult_le_mono1)
    with Lq(2) have "p < 2 ^ 276 * q" by (rule less_le_trans)
    then have "2 * p < 2 ^ 277 * q" by simp
    also have "\<dots> \<le> (2 ^ 25 - 1) * 2 ^ 253 * q" by simp
    finally show ?thesis using lhs fin by simp
  next
    case 3
    then have k: "0 < k" "254 \<le> k" by simp_all
    have "(2::nat) ^ 277 = 2 ^ 23 * 2 ^ 254" by simp
    also have "\<dots> \<le> 2 ^ 23 * 2 ^ k" using k(2) by (intro mult_le_mono2 power_increasing) simp_all
    also have "\<dots> \<le> M * 2 ^ k" using fl_ge [OF k(1)] M_bounds(1) by simp
    finally have lhs: "\<not> M * 2 ^ k < 2 ^ 277" by simp
    have "(2::nat) ^ 277 \<le> 2 ^ (23 + k)" using k(2) by (intro power_increasing) simp_all
    with L_ge [OF k(1)] have "2 ^ 277 \<le> L" by simp
    then have "2 ^ 277 * q \<le> L * q" by (rule mult_le_mono1)
    then have "2 ^ 277 * q \<le> p" using Lq(1) by (rule le_trans)
    then have "2 ^ 278 * q \<le> 2 * p" by simp
    moreover have "(2 ^ 25 - 1) * 2 ^ 253 * q < 2 ^ 278 * q" using q by simp
    ultimately have "\<not> 2 * p < (2 ^ 25 - 1) * 2 ^ 253 * q" by simp
    with lhs fin show ?thesis by simp
  next
    case 2
    then have Q253: "Q = q * 2 ^ 253" by (simp add: Q_def)
    have lhs: "M * 2 ^ k < 2 ^ 277 \<longleftrightarrow> M < 2 ^ 24"
    proof -
      have "(2::nat) ^ 277 = 2 ^ 24 * 2 ^ k" unfolding 2 by simp
      then show ?thesis by simp
    qed
    have rhs: "2 * p < (2 ^ 25 - 1) * 2 ^ 253 * q \<longleftrightarrow> 2 * fl * Q + 2 * r < (2 ^ 25 - 1) * Q"
      by (simp add: p Q253 algebra_simps)
    show ?thesis
    proof (cases "fl = 2 ^ 24 - 1")
      case True
      then have odd: "odd fl" by simp
      have eq: "2 * fl * Q + Q = (2 ^ 25 - 1) * Q" unfolding True by (simp add: algebra_simps)
      have "2 * fl * Q + 2 * r < (2 ^ 25 - 1) * Q \<longleftrightarrow> 2 * r < Q"
        unfolding eq [symmetric] by simp
      moreover have "M < 2 ^ 24 \<longleftrightarrow> 2 * r < Q" using odd by (simp add: M True)
      ultimately show ?thesis using fin lhs rhs by simp
    next
      case False
      with fl_lt have fl2: "fl + 2 \<le> 2 ^ 24" by simp
      then have "M < 2 ^ 24" using M_bounds(2) by simp
      moreover have "2 * fl * Q + 2 * r < (2 ^ 25 - 1) * Q"
      proof -
        have "2 * fl * Q + 2 * r < 2 * fl * Q + 2 * Q" using r by simp
        also have "\<dots> = (2 * (fl + 2) - 2) * Q" by (simp add: algebra_simps)
        also have "\<dots> \<le> (2 * 2 ^ 24 - 2) * Q" using fl2 by (intro mult_le_mono1) simp
        also have "\<dots> \<le> (2 ^ 25 - 1) * Q" by simp
        finally show ?thesis .
      qed
      ultimately show ?thesis using fin lhs rhs by simp
    qed
  qed
qed

subsection \<open>The operators\<close>

text \<open>The operators return binary32 values, whatever their operands.\<close>

lemma is_magnitude_0: "is_magnitude 0"
  by (simp add: is_magnitude_def)

lemma is_float32_fadd: "is_float32 (fadd x y)"
  by (cases x; cases y) (simp_all add: Let_def is_float32_f32_round is_magnitude_0)

lemma is_float32_fsub: "is_float32 (fsub x y)"
  by (cases x; cases y) (simp_all add: Let_def is_float32_f32_round is_magnitude_0)

lemma is_float32_fmul: "is_float32 (fmul x y)"
  by (cases x; cases y) (simp_all add: is_float32_f32_round)

lemma is_float32_fdiv: "is_float32 (fdiv x y)"
  by (cases x; cases y) (simp_all add: is_float32_f32_round is_magnitude_0)

lemma is_float32_fneg: "is_float32 x \<Longrightarrow> is_float32 (fneg x)"
  by (cases x) simp_all

text \<open>A NaN operand gives a NaN.\<close>

lemma fadd_NaN_right: "fadd x NaN = NaN"
  by (cases x) simp_all

lemma fsub_NaN_right: "fsub x NaN = NaN"
  by (cases x) simp_all

lemma fmul_NaN_right: "fmul x NaN = NaN"
  by (cases x) simp_all

lemma fdiv_NaN_right: "fdiv x NaN = NaN"
  by (cases x) simp_all

text \<open>Subtraction is the addition of the negation; multiplication commutes.\<close>

lemma fsub_eq_fadd_fneg: "fsub x y = fadd x (fneg y)"
  by (cases x; cases y) (auto simp: sval_def Let_def)

lemma fmul_commute: "fmul x y = fmul y x"
proof (cases x; cases y)
  fix s m t n
  assume "x = Finite s m" "y = Finite t n"
  moreover have "(s \<noteq> t) = (t \<noteq> s)" by auto
  ultimately show ?thesis by (simp add: mult.commute)
qed auto

text \<open>
  Swapping the operands of a subtraction negates the result, up to the sign of a zero:
  \<open>p - p\<close> is \<open>+0\<close>, and so is its swap, whose negation is \<open>-0\<close>.
\<close>

lemma fsub_swap: "eq_or_NaN (fsub p q) (fneg (fsub q p))"
proof (cases p; cases q)
  fix s m t n
  assume p: "p = Finite s m" and q: "q = Finite t n"
  show ?thesis
  proof (cases "sval s m = sval t n")
    case True
    then show ?thesis by (simp add: p q eq_or_NaN_def sval_def)
  next
    case False
    define r where "r = sval s m - sval t n"
    have r: "r \<noteq> 0" using False by (simp add: r_def)
    have pq: "fsub p q = f32_round (r < 0) (nat \<bar>r\<bar>) 1"
      using r by (simp add: p q r_def Let_def)
    have "sval t n - sval s m = - r" by (simp add: r_def)
    then have "fsub q p = f32_round (- r < 0) (nat \<bar>- r\<bar>) 1"
      using r by (simp add: p q Let_def)
    moreover have "(- r < 0) = (\<not> r < 0)" using r by auto
    ultimately have qp: "fneg (fsub q p) = f32_round (r < 0) (nat \<bar>r\<bar>) 1"
      by (simp add: fneg_f32_round)
    show ?thesis unfolding pq qp eq_or_NaN_def using feq_f32_round by blast
  qed
qed (auto simp: eq_or_NaN_def)

text \<open>
  Go's \<^verbatim>\<open>==\<close> holds between a value and itself, unless the value is NaN: two sides that
  are the same value compare equal wherever they are not NaN.
\<close>

lemma feq_refl: "\<not> is_NaN x \<Longrightarrow> feq x x"
  by (cases x) simp_all

text \<open>Dividing or multiplying a binary32 value by \<open>1.0\<close> returns it.\<close>

lemma fdiv_one: "is_float32 x \<Longrightarrow> fdiv x f32_1 = x"
  by (cases x) (simp_all add: f32_1_def f32_round_exact)

lemma fmul_one: "is_float32 x \<Longrightarrow> fmul x f32_1 = x"
  by (cases x) (simp_all add: f32_1_def f32_round_exact)

text \<open>Division by a zero.\<close>

lemma fdiv_by_zero: "is_zero s \<Longrightarrow> is_Inf_or_NaN (fdiv x s)"
  by (cases x; cases s) auto

lemma zero_fdiv_zero: "is_zero x \<Longrightarrow> is_zero y \<Longrightarrow> fdiv x y = NaN"
  by (cases x; cases y) auto

lemma fdiv_zero_exact: "is_zero z \<Longrightarrow> fdiv x z = quotient_by_zero x z"
  by (cases x; cases z) (auto simp: quotient_by_zero_def)

lemma is_Inf_or_NaN_quotient_by_zero: "is_Inf_or_NaN (quotient_by_zero x z)"
  by (simp add: quotient_by_zero_def)

text \<open>Addition commutes; a fused multiply-subtract of \<open>+0\<close> is the product.\<close>

lemma fadd_commute: "fadd x y = fadd y x"
proof (cases x; cases y)
  fix s m t n
  assume "x = Finite s m" "y = Finite t n"
  moreover have "(s \<and> t) = (t \<and> s)" by auto
  ultimately show ?thesis by (auto simp: add.commute Let_def)
qed auto

lemma fmulsub_zero: "fmulsub x y f32_0 = fmul x y"
proof (cases x; cases y)
  fix s m t n
  assume x: "x = Finite s m" and y: "y = Finite t n"
  show ?thesis
  proof (cases "m * n = 0")
    case True
    then show ?thesis by (auto simp: x y f32_0_def sval_def f32_round_0)
  next
    case False
    then have "sval s m * sval t n \<noteq> 0" "(sval s m * sval t n < 0) = (s \<noteq> t)"
      "nat \<bar>sval s m * sval t n\<bar> = m * n"
      by (auto simp: sval_def mult_less_0_iff nat_mult_distrib abs_mult)
    then show ?thesis by (simp add: x y f32_0_def Let_def) (simp add: sval_def)
  qed
qed (auto simp: f32_0_def)

text \<open>Zeros.\<close>

lemma fmul_zero_self: "is_zero x \<Longrightarrow> fmul x x = f32_0"
  by (cases x) (auto simp: f32_round_0 f32_0_def)

lemma fadd_zero_zero: "fadd f32_0 f32_0 = f32_0"
  by (simp add: f32_0_def sval_def)

lemma Sqrt_zero: "Sqrt f32_0 = f32_0"
  by (simp add: f32_0_def)

lemma is_zero_f32_0: "is_zero f32_0"
  by (simp add: f32_0_def)

lemma fmul_zero_finite: "is_zero x \<Longrightarrow> is_finite y \<Longrightarrow> is_zero (fmul x y)"
  by (cases x; cases y) (auto simp: f32_round_0)

lemma fmul_zero_left: "is_zero x \<Longrightarrow> zero_or_NaN (fmul x y)"
  by (cases x; cases y) (auto simp: f32_round_0 zero_or_NaN_def)

lemma fmul_zero_or_NaN_left: "zero_or_NaN x \<Longrightarrow> zero_or_NaN (fmul x y)"
  by (cases x; cases y) (auto simp: f32_round_0 zero_or_NaN_def)

lemma fadd_zero_or_NaN: "zero_or_NaN x \<Longrightarrow> zero_or_NaN y \<Longrightarrow> zero_or_NaN (fadd x y)"
  by (cases x; cases y) (auto simp: zero_or_NaN_def sval_def)

lemma fsub_zero_zero: "is_zero x \<Longrightarrow> is_zero y \<Longrightarrow> is_zero (fsub x y)"
  by (cases x; cases y) (auto simp: sval_def)

lemma zero_fadd:
  assumes "zero_or_NaN z" "is_float32 x" "is_finite x" "\<not> is_zero x"
  shows "this_or_NaN x (fadd z x)"
proof (cases z)
  case NaN
  then show ?thesis by (simp add: this_or_NaN_def)
next
  case (Infty b)
  with assms(1) show ?thesis by (simp add: zero_or_NaN_def)
next
  case (Finite b k)
  with assms(1) have k: "k = 0" by (simp add: zero_or_NaN_def)
  from assms(3) obtain t n where x: "x = Finite t n" by (cases x) auto
  with assms have n: "is_magnitude n" "n \<noteq> 0" by auto
  have r: "sval b 0 + sval t n \<noteq> 0" "(sval b 0 + sval t n < 0) = t"
    "nat \<bar>sval b 0 + sval t n\<bar> = n * 1"
    using n(2) by (auto simp: sval_def)
  have "fadd z x = f32_round t (n * 1) 1"
    unfolding Finite k x fadd.simps Let_def using r by simp
  also have "\<dots> = Finite t n" using n(1) by (intro f32_round_exact) simp_all
  finally show ?thesis by (simp add: this_or_NaN_def x)
qed

lemma zero_fadd_this_or_NaN:
  assumes "zero_or_NaN z" "this_or_NaN s x" "is_float32 s" "is_finite s" "\<not> is_zero s"
  shows "this_or_NaN s (fadd z x)"
proof (cases "x = s")
  case True
  with assms zero_fadd [of z s] show ?thesis by simp
next
  case False
  with assms(2) have "x = NaN" by (simp add: this_or_NaN_def)
  then show ?thesis by (simp add: this_or_NaN_def fadd_NaN_right)
qed

lemma not_feq_zero:
  assumes "this_or_NaN s x" "is_finite s" "\<not> is_zero s" "is_zero y"
  shows "\<not> feq x y" "x \<noteq> y"
proof -
  from assms(2) obtain t n where s: "s = Finite t n" by (cases s) auto
  from assms(4) obtain b where y: "y = Finite b 0" by (cases y) auto
  from assms(1) have "x = s \<or> x = NaN" by (simp add: this_or_NaN_def)
  then show "\<not> feq x y" "x \<noteq> y"
    using assms(3) by (auto simp: s y sval_def split: if_splits)
qed

lemma one_fmul: "is_float32 x \<Longrightarrow> fmul f32_1 x = x"
  using fmul_one [of x] by (simp add: fmul_commute)

subsection \<open>Bit patterns\<close>

lemma is_magnitude_subnormal: "m < 2 ^ 23 \<Longrightarrow> is_magnitude m"
proof -
  assume m: "m < 2 ^ 23"
  then have "bitlen m \<le> 23" by (simp add: bitlen_le_iff)
  then have "bitlen m - 24 = 0" by simp
  moreover have "m < 2 ^ 277" using m by (rule less_le_trans) simp
  ultimately show ?thesis by (simp add: is_magnitude_def)
qed

lemma is_magnitude_normal:
  assumes "m < 2 ^ 23" "e < 254"
  shows "is_magnitude ((2 ^ 23 + m) * 2 ^ e)"
proof -
  have "(2 ^ 23 + m) * 2 ^ e < 2 ^ 24 * 2 ^ e" using assms(1) by simp
  then have lt: "(2 ^ 23 + m) * 2 ^ e < 2 ^ (24 + e)" by (simp add: power_add)
  also have "(2::nat) ^ (24 + e) \<le> 2 ^ 277" using assms(2) by (intro power_increasing) simp_all
  finally have "(2 ^ 23 + m) * 2 ^ e < 2 ^ 277" .
  moreover have "2 ^ (bitlen ((2 ^ 23 + m) * 2 ^ e) - 24) dvd (2 ^ 23 + m) * 2 ^ e"
    using lt by (rule magnitude_dvd) simp
  ultimately show ?thesis by (simp add: is_magnitude_def)
qed

lemma is_float32_f32_of_fields:
  assumes "e < 256" "m < 2 ^ 23"
  shows "is_float32 (f32_of_fields s e m)"
proof (cases "e = 255 \<or> e = 0")
  case True
  then show ?thesis
    using assms(2) by (auto simp: f32_of_fields_def is_magnitude_subnormal)
next
  case False
  then have "e - 1 < 254" using assms(1) by arith
  then have "is_magnitude ((2 ^ 23 + m) * 2 ^ (e - 1))"
    using assms(2) by (intro is_magnitude_normal)
  then show ?thesis
    using False by (simp add: f32_of_fields_def)
qed

lemma is_float32_f32_of_bits: "is_float32 (f32_of_bits w)"
  unfolding f32_of_bits_def by (rule is_float32_f32_of_fields) simp_all

text \<open>Every binary32 value is the value of a bit pattern.\<close>

lemma is_magnitude_fields:
  assumes "is_magnitude n"
  shows "\<exists>e m. e < 255 \<and> m < 2 ^ 23 \<and> Finite s n = f32_of_fields s e m"
proof (cases "n < 2 ^ 23")
  case True
  then have "Finite s n = f32_of_fields s 0 n" by (simp add: f32_of_fields_def)
  with True show ?thesis by (intro exI [of _ 0] exI [of _ n]) simp
next
  case False
  define k where "k = bitlen n - 24"
  from False have "2 ^ 23 \<le> n" by simp
  then have "23 < bitlen n" by (simp add: bitlen_ge_iff)
  then have bl: "bitlen n = 24 + k" by (simp add: k_def)
  from assms have "n < 2 ^ 277" and "2 ^ k dvd n" by (simp_all add: is_magnitude_def k_def)
  then obtain j where j: "n = j * 2 ^ k" by (auto elim: dvdE simp: mult.commute)
  have "bitlen n \<le> 277" using \<open>n < 2 ^ 277\<close> by (simp add: bitlen_le_iff)
  then have k: "k < 254" using bl by simp
  have "n < 2 ^ (24 + k)" using bitlen_le_iff [of n "24 + k"] bl by simp
  then have "j * 2 ^ k < 2 ^ 24 * 2 ^ k" by (simp add: j power_add)
  then have j_hi: "j < 2 ^ 24" by simp
  have "23 + k < bitlen n" using bl by simp
  then have "2 ^ (23 + k) \<le> n" by (simp add: bitlen_ge_iff)
  then have "2 ^ 23 * 2 ^ k \<le> j * 2 ^ k" by (simp add: j power_add)
  then have j_lo: "2 ^ 23 \<le> j" by simp
  define m where "m = j - 2 ^ 23"
  have m: "m < 2 ^ 23" "j = 2 ^ 23 + m" using j_lo j_hi by (simp_all add: m_def)
  have "Finite s n = f32_of_fields s (Suc k) m"
    using k by (simp add: f32_of_fields_def j m(2))
  moreover have "Suc k < 255" using k by simp
  ultimately show ?thesis using m(1) by blast
qed

lemma f32_of_bits_fields:
  assumes "e < 256" "m < 2 ^ 23"
  shows "f32_of_bits (word_of_nat ((if s then 2 ^ 31 else 0) + e * 2 ^ 23 + m)) = f32_of_fields s e m"
proof -
  define n :: nat where "n = (if s then 2 ^ 31 else 0) + e * 2 ^ 23 + m"
  have "e * 2 ^ 23 + m < 2 ^ 31" using assms by simp
  then have lt: "n < 2 ^ 32" by (simp add: n_def)
  have u: "unat (word_of_nat n :: 32 word) = n"
    using lt by (simp add: unat_of_nat)
  have s: "(2 ^ 31 \<le> n) = s" using \<open>e * 2 ^ 23 + m < 2 ^ 31\<close> by (simp add: n_def)
  have n: "n = m + ((if s then 2 ^ 8 else 0) + e) * 2 ^ 23" by (simp add: n_def)
  have "n div 2 ^ 23 = (if s then 2 ^ 8 else 0) + e + m div 2 ^ 23"
    unfolding n by (rule div_mult_self1) simp
  then have e: "n div 2 ^ 23 mod 2 ^ 8 = e" using assms by simp
  have "n mod 2 ^ 23 = m mod 2 ^ 23" unfolding n by (rule mod_mult_self1)
  then have m: "n mod 2 ^ 23 = m" using assms(2) by simp
  show ?thesis
    unfolding f32_of_bits_def n_def [symmetric] u s e m ..
qed

lemma is_float32_bits: "is_float32 x \<Longrightarrow> \<exists>w. f32_of_bits w = x"
proof (cases x)
  case NaN
  have "f32_of_bits 0x7FC00000 = NaN" by (simp add: f32_of_bits_def f32_of_fields_def)
  with NaN show ?thesis by blast
next
  case (Infty s)
  have "f32_of_fields s 255 0 = Infty s" by (simp add: f32_of_fields_def)
  moreover have "(255::nat) < 256" "(0::nat) < 2 ^ 23" by simp_all
  note f32_of_bits_fields [OF this, of s]
  ultimately show ?thesis using Infty by metis
next
  case (Finite s n)
  assume "is_float32 x"
  with Finite have "is_magnitude n" by simp
  then obtain e m where em: "e < 255" "m < 2 ^ 23" and x: "Finite s n = f32_of_fields s e m"
    using is_magnitude_fields by blast
  from em(1) have "e < 256" by simp
  note f32_of_bits_fields [OF this em(2), of s]
  with x Finite show ?thesis by metis
qed

text \<open>The bit pattern of a value.\<close>

lemma bitlen_eq: "2 ^ j \<le> n \<Longrightarrow> n < 2 ^ Suc j \<Longrightarrow> bitlen n = Suc j"
proof -
  assume "2 ^ j \<le> n" "n < 2 ^ Suc j"
  then have "j < bitlen n" "bitlen n \<le> Suc j" by (simp_all add: bitlen_ge_iff bitlen_le_iff)
  then show ?thesis by simp
qed

lemma f32_of_bits_bits_of_fields:
  "e < 256 \<Longrightarrow> m < 2 ^ 23 \<Longrightarrow> f32_of_bits (bits_of_fields s e m) = f32_of_fields s e m"
  unfolding bits_of_fields_def by (rule f32_of_bits_fields)

lemma fields_of_normal:
  assumes "m < 2 ^ 23"
  shows "fields_of_magnitude ((2 ^ 23 + m) * 2 ^ e) = (Suc e, m)"
proof -
  define n where "n = (2 ^ 23 + m) * 2 ^ e"
  have lo: "2 ^ (23 + e) \<le> n" by (simp add: n_def power_add)
  have "n < 2 ^ 24 * 2 ^ e" using assms by (simp add: n_def)
  then have hi: "n < 2 ^ Suc (23 + e)" by (simp add: power_add)
  from lo hi have "bitlen n = Suc (23 + e)" by (rule bitlen_eq)
  then have k: "bitlen n - 24 = e" by simp
  have "(2::nat) ^ 23 \<le> 2 ^ (23 + e)" by (intro power_increasing) simp_all
  with lo have ge: "\<not> n < 2 ^ 23" by simp
  have d: "n div 2 ^ e - 2 ^ 23 = m" by (simp add: n_def)
  have "fields_of_magnitude n = (bitlen n - 24 + 1, n div 2 ^ (bitlen n - 24) - 2 ^ 23)"
    using ge by (simp add: fields_of_magnitude_def Let_def)
  also have "\<dots> = (Suc e, m)" unfolding k d by simp
  finally show ?thesis unfolding n_def .
qed

lemma f32_bits_f32_of_fields:
  assumes "e < 256" "m < 2 ^ 23" "\<not> is_NaN (f32_of_fields s e m)"
  shows "f32_bits (f32_of_fields s e m) = bits_of_fields s e m"
proof -
  consider "e = 255" | "e = 0" | "e \<noteq> 255" "0 < e" by auto
  then show ?thesis
  proof cases
    case 1
    with assms(3) have "m = 0" by (simp add: f32_of_fields_def split: if_splits)
    with 1 show ?thesis by (simp add: f32_of_fields_def)
  next
    case 2
    then show ?thesis using assms(2) by (simp add: f32_of_fields_def fields_of_magnitude_def)
  next
    case 3
    then obtain e' where e': "e = Suc e'" by (cases e) auto
    have "f32_of_fields s e m = Finite s ((2 ^ 23 + m) * 2 ^ e')"
      using 3 by (simp add: f32_of_fields_def e')
    then show ?thesis using fields_of_normal [OF assms(2), of e'] by (simp add: e')
  qed
qed

lemma nat_fields:
  fixes n :: nat
  assumes "n < 2 ^ 32"
  shows "(if 2 ^ 31 \<le> n then 2 ^ 31 else 0) + n div 2 ^ 23 mod 2 ^ 8 * 2 ^ 23 + n mod 2 ^ 23 = n"
proof -
  define d where "d = n div 2 ^ 23"
  have "n < 2 ^ 9 * 2 ^ 23" using assms by simp
  then have d: "d < 2 ^ 9" unfolding d_def by (rule less_mult_imp_div_less)
  have s: "(2 ^ 31 \<le> n) = (2 ^ 8 \<le> d)"
    unfolding d_def by (simp add: less_eq_div_iff_mult_less_eq)
  have dm: "(if 2 ^ 8 \<le> d then 2 ^ 8 else 0) + d mod 2 ^ 8 = d"
  proof (cases "2 ^ 8 \<le> d")
    case True
    then have "d mod 2 ^ 8 = (d - 2 ^ 8) mod 2 ^ 8" by (rule le_mod_geq)
    moreover have "d - 2 ^ 8 < 2 ^ 8" using d by simp
    ultimately have "d mod 2 ^ 8 = d - 2 ^ 8" by simp
    with True show ?thesis by simp
  next
    case False
    then show ?thesis by simp
  qed
  have "d * 2 ^ 23 + n mod 2 ^ 23 = n" unfolding d_def by (rule div_mult_mod_eq)
  then have "((if 2 ^ 8 \<le> d then 2 ^ 8 else 0) + d mod 2 ^ 8) * 2 ^ 23 + n mod 2 ^ 23 = n"
    unfolding dm .
  moreover have "(if 2 ^ 8 \<le> d then 2 ^ 8 else 0) * 2 ^ 23 = (if 2 ^ 8 \<le> d then 2 ^ 31 else (0::nat))"
    by simp
  ultimately show ?thesis unfolding s d_def [symmetric] by (simp only: add_mult_distrib)
qed

lemma unat_fields:
  fixes w :: "32 word"
  shows "bits_of_fields (2 ^ 31 \<le> unat w) (unat w div 2 ^ 23 mod 2 ^ 8) (unat w mod 2 ^ 23) = w"
proof -
  have "unat w < 2 ^ LENGTH(32)" by (rule unsigned_less)
  then have "unat w < 2 ^ 32" by simp
  then have "(if 2 ^ 31 \<le> unat w then 2 ^ 31 else 0) + unat w div 2 ^ 23 mod 2 ^ 8 * 2 ^ 23
      + unat w mod 2 ^ 23 = unat w" by (rule nat_fields)
  then show ?thesis unfolding bits_of_fields_def by (simp only: of_nat_unat ucast_id)
qed

text \<open>A value that is not NaN has one bit pattern.\<close>

lemma f32_bits_f32_of_bits:
  assumes "\<not> is_NaN (f32_of_bits w)"
  shows "f32_bits (f32_of_bits w) = w"
proof -
  define s where "s = (2 ^ 31 \<le> unat w)"
  define e where "e = unat w div 2 ^ 23 mod 2 ^ 8"
  define m where "m = unat w mod 2 ^ 23"
  have w: "f32_of_bits w = f32_of_fields s e m" by (simp add: f32_of_bits_def s_def e_def m_def)
  have "e < 256" "m < 2 ^ 23" by (simp_all add: e_def m_def)
  then have "f32_bits (f32_of_fields s e m) = bits_of_fields s e m"
    using assms unfolding w by (rule f32_bits_f32_of_fields)
  also have "\<dots> = w" unfolding s_def e_def m_def by (rule unat_fields)
  finally show ?thesis unfolding w .
qed

lemma f32_of_bits_inject:
  assumes "f32_of_bits w = f32_of_bits w'" "\<not> is_NaN (f32_of_bits w)"
  shows "w = w'"
proof -
  from assms have "\<not> is_NaN (f32_of_bits w')" by simp
  then have "f32_bits (f32_of_bits w') = w'" by (rule f32_bits_f32_of_bits)
  moreover have "f32_bits (f32_of_bits w) = w" using assms(2) by (rule f32_bits_f32_of_bits)
  ultimately show ?thesis unfolding assms(1) by simp
qed

lemma fields_of_magnitude_ok:
  assumes "is_magnitude n" "fields_of_magnitude n = (e, f)"
  shows "e < 255 \<and> f < 2 ^ 23 \<and> f32_of_fields s e f = Finite s n"
proof (cases "n < 2 ^ 23")
  case True
  with assms(2) have "e = 0" "f = n" by (simp_all add: fields_of_magnitude_def)
  with True show ?thesis by (simp add: f32_of_fields_def)
next
  case False
  define k where "k = bitlen n - 24"
  from False assms(2) have ef: "e = Suc k" "f = n div 2 ^ k - 2 ^ 23"
    by (simp_all add: fields_of_magnitude_def Let_def k_def)
  from False have "2 ^ 23 \<le> n" by simp
  then have "23 < bitlen n" by (simp add: bitlen_ge_iff)
  then have bl: "bitlen n = 24 + k" by (simp add: k_def)
  from assms have "n < 2 ^ 277" and "2 ^ k dvd n" by (simp_all add: is_magnitude_def k_def)
  then obtain j where j: "n = j * 2 ^ k" by (auto elim: dvdE simp: mult.commute)
  have "bitlen n \<le> 277" using \<open>n < 2 ^ 277\<close> by (simp add: bitlen_le_iff)
  then have k: "k < 254" using bl by simp
  have "n < 2 ^ (24 + k)" using bitlen_le_iff [of n "24 + k"] bl by simp
  then have "j * 2 ^ k < 2 ^ 24 * 2 ^ k" by (simp add: j power_add)
  then have j_hi: "j < 2 ^ 24" by simp
  have "23 + k < bitlen n" using bl by simp
  then have "2 ^ (23 + k) \<le> n" by (simp add: bitlen_ge_iff)
  then have "2 ^ 23 * 2 ^ k \<le> j * 2 ^ k" by (simp add: j power_add)
  then have j_lo: "2 ^ 23 \<le> j" by simp
  have "n div 2 ^ k = j" by (simp add: j)
  then have f: "f < 2 ^ 23" "j = 2 ^ 23 + f" using j_lo j_hi by (simp_all add: ef)
  have "f32_of_fields s (Suc k) f = Finite s n"
    using k by (simp add: f32_of_fields_def j f(2))
  then show ?thesis using k f(1) by (simp add: ef(1))
qed

lemma f32_of_bits_f32_bits:
  assumes "is_float32 x"
  shows "f32_of_bits (f32_bits x) = x"
proof (cases x)
  case NaN
  then show ?thesis by (simp add: f32_of_bits_def f32_of_fields_def)
next
  case (Infty s)
  have "f32_of_bits (bits_of_fields s 255 0) = f32_of_fields s 255 0"
    by (rule f32_of_bits_bits_of_fields) simp_all
  then show ?thesis by (simp add: Infty f32_of_fields_def)
next
  case (Finite s n)
  obtain e f where ef: "fields_of_magnitude n = (e, f)" by (cases "fields_of_magnitude n")
  from assms Finite have "is_magnitude n" by simp
  then have ok: "e < 255" "f < 2 ^ 23" "f32_of_fields s e f = Finite s n"
    using fields_of_magnitude_ok [OF _ ef, of s] by simp_all
  from ok(1) have "e < 256" by simp
  then have "f32_of_bits (bits_of_fields s e f) = f32_of_fields s e f"
    using ok(2) by (rule f32_of_bits_bits_of_fields)
  then show ?thesis by (simp add: Finite ef ok(3))
qed

lemma is_NaN_f32_of_bits:
  "is_NaN (f32_of_bits w) \<longleftrightarrow> unat w div 2 ^ 23 mod 2 ^ 8 = 255 \<and> unat w mod 2 ^ 23 \<noteq> 0"
  by (simp add: f32_of_bits_def f32_of_fields_def)

lemma f32_of_bits_quiet:
  assumes "is_NaN (f32_of_bits w)"
  shows "f32_of_bits (quiet w) = NaN"
proof (cases "2 ^ 22 \<le> unat w mod 2 ^ 23")
  case True
  then have "quiet w = w" by (simp add: quiet_def)
  with assms show ?thesis by (cases "f32_of_bits w") simp_all
next
  case False
  define n where "n = unat w"
  from assms have e: "n div 2 ^ 23 mod 2 ^ 8 = 255" and m: "n mod 2 ^ 23 \<noteq> 0"
    by (simp_all add: is_NaN_f32_of_bits n_def)
  from False have lt: "n mod 2 ^ 23 < 2 ^ 22" by (simp add: n_def)
  have "unat w < 2 ^ LENGTH(32)" by (rule unsigned_less)
  then have n32: "n < 2 ^ 32" by (simp add: n_def)
  define q where "q = n div 2 ^ 23"
  define r where "r = n mod 2 ^ 23"
  have n: "n = q * 8388608 + r" by (simp add: q_def r_def)
  have "q < 2 ^ 9" unfolding q_def using n32 by (intro less_mult_imp_div_less) simp
  then have q: "q \<le> 511" by simp
  have r: "r < 4194304" using lt by (simp add: r_def)
  from n q r have "n + 4194304 < 4294967296" by linarith
  then have "n + 2 ^ 22 < 2 ^ 32" by simp
  then have u: "unat (w + 0x400000) = n + 2 ^ 22"
    unfolding n_def using unat_add_lem [of w "0x400000"] by simp
  have split: "n + 2 ^ 22 = (n mod 2 ^ 23 + 2 ^ 22) + n div 2 ^ 23 * 2 ^ 23" by simp
  have small: "n mod 2 ^ 23 + 2 ^ 22 < 2 ^ 23" using lt by simp
  have "(n + 2 ^ 22) div 2 ^ 23 = n div 2 ^ 23 + (n mod 2 ^ 23 + 2 ^ 22) div 2 ^ 23"
    unfolding split by (rule div_mult_self1) simp
  then have d: "(n + 2 ^ 22) div 2 ^ 23 = n div 2 ^ 23" using small by simp
  have "(n + 2 ^ 22) mod 2 ^ 23 = (n mod 2 ^ 23 + 2 ^ 22) mod 2 ^ 23"
    unfolding split by (rule mod_mult_self1)
  then have r': "(n + 2 ^ 22) mod 2 ^ 23 = n mod 2 ^ 23 + 2 ^ 22" using small by simp
  have qw: "quiet w = w + 0x400000" using False by (simp add: quiet_def)
  have "unat (w + 0x400000) div 2 ^ 23 mod 2 ^ 8 = 255"
    unfolding u d by (rule e)
  moreover have "unat (w + 0x400000) mod 2 ^ 23 \<noteq> 0"
    unfolding u r' by simp
  ultimately have "is_NaN (f32_of_bits (quiet w))"
    unfolding qw is_NaN_f32_of_bits by (rule conjI)
  then show ?thesis by (cases "f32_of_bits (quiet w)") simp_all
qed

lemma same_value_same_bits:
  "f32_of_bits w = f32_of_bits w' \<Longrightarrow> same_bits_or_NaN w w'"
  unfolding same_bits_or_NaN_def using f32_of_bits_inject [of w w'] by auto

text \<open>The sum of amd64 has the value of \<open>fadd\<close>, in either order of its operands.\<close>

lemma f32_of_bits_addss:
  "f32_of_bits (addss x y) = fadd (f32_of_bits x) (f32_of_bits y)"
proof (cases "is_NaN (f32_of_bits x)")
  case True
  then have "f32_of_bits x = NaN" by (cases "f32_of_bits x") simp_all
  with True show ?thesis by (simp add: addss_def f32_of_bits_quiet)
next
  case nx: False
  show ?thesis
  proof (cases "is_NaN (f32_of_bits y)")
    case True
    then have "f32_of_bits y = NaN" by (cases "f32_of_bits y") simp_all
    with nx True show ?thesis by (simp add: addss_def f32_of_bits_quiet fadd_NaN_right)
  next
    case False
    with nx show ?thesis by (simp add: addss_def f32_of_bits_f32_bits is_float32_fadd)
  qed
qed

lemma f32_of_bits_go_add:
  "f32_of_bits (go_add swap x y) = fadd (f32_of_bits x) (f32_of_bits y)"
  by (simp add: go_add_def f32_of_bits_addss fadd_commute [of "f32_of_bits y"])

subsection \<open>The sample values\<close>

lemma f32_of_bits_samples:
  "f32_of_bits 0 = f32_0"
  "f32_of_bits 0x3F800000 = f32_1"
  "f32_of_bits 0x3FC90FDB = f32_half_pi"
  "f32_of_bits 0xB33BBD2E = f32_cos_half_pi"
  "f32_of_bits 0x7F000000 = f32_huge"
  "f32_of_bits 0x40000000 = f32_2"
  "f32_of_bits 0x40400000 = f32_3"
  "f32_of_bits 0x80000000 = Finite True 0"
  "f32_of_bits 0x7F800000 = Infty False"
  "f32_of_bits 0x7FC00000 = NaN"
  by (simp_all add: f32_of_bits_def f32_of_fields_def f32_0_def f32_1_def f32_half_pi_def f32_cos_half_pi_def
      f32_huge_def f32_2_def f32_3_def)

lemma is_float32_samples:
  "is_float32 f32_0" "is_float32 f32_1" "is_float32 f32_2" "is_float32 f32_3"
  "is_float32 f32_half_pi" "is_float32 f32_cos_half_pi" "is_float32 f32_huge"
  by (simp_all add: f32_of_bits_samples [symmetric] is_float32_f32_of_bits)

lemma not_feq_half_pi_zero: "\<not> feq f32_half_pi f32_0"
  by (simp add: f32_half_pi_def f32_0_def sval_def)

lemma trig_at_half_pi:
  "Cos_at f32_half_pi = f32_cos_half_pi" "Sin_at f32_half_pi = f32_1"
  by (simp_all add: Cos_at_def Sin_at_def)

lemma fmul_huge_huge: "fmul f32_huge f32_huge = Infty False"
  by (simp add: f32_huge_def f32_round_def round_even_def bitlen.simps Let_def)

lemma fmul_next_1: "fmul f32_next_1 f32_next_1 = Finite False (8388610 * 2 ^ 126)"
  by (simp add: f32_next_1_def f32_round_def round_even_def bitlen.simps Let_def)

lemma fmulsub_next_1:
  "fmulsub f32_next_1 f32_next_1 (Finite False (8388610 * 2 ^ 126)) = Finite False (2 ^ 103)"
  by (simp add: f32_next_1_def f32_round_def round_even_def bitlen.simps Let_def sval_def)

lemma fmulsub_fmul_next_1:
  "fmulsub f32_next_1 f32_next_1 (fmul f32_next_1 f32_next_1) = Finite False (2 ^ 103)"
  unfolding fmul_next_1 by (rule fmulsub_next_1)

lemma NaN_samples:
  "f32_of_bits 0x7FC00001 = NaN" "f32_of_bits 0xFFC00002 = NaN"
  by (simp_all add: f32_of_bits_def f32_of_fields_def)

lemma quiet_samples:
  "quiet 0x7FC00001 = 0x7FC00001" "quiet 0xFFC00002 = 0xFFC00002"
  by (simp_all add: quiet_def)

lemma addss_NaN_samples:
  "addss 0x7FC00001 0xFFC00002 = 0x7FC00001" "addss 0xFFC00002 0x7FC00001 = 0xFFC00002"
  by (simp_all add: addss_def NaN_samples quiet_samples)

subsection \<open>The square root\<close>

text \<open>\<open>isqrt\<close> is the integer square root.\<close>

lemma isqrt_floor: "isqrt n * isqrt n \<le> n \<and> n < (isqrt n + 1) * (isqrt n + 1)"
proof (induction n rule: isqrt.induct)
  case (1 n)
  show ?case
  proof (cases "n < 2")
    case True
    then have "isqrt n = n" by (simp add: isqrt.simps [of n])
    moreover from True have "n = 0 \<or> n = 1" by auto
    ultimately show ?thesis by auto
  next
    case False
    define h where "h = isqrt (n div 4)"
    from 1 False have IH: "h * h \<le> n div 4" "n div 4 < (h + 1) * (h + 1)"
      by (simp_all add: h_def)
    have lo: "(2 * h) * (2 * h) \<le> n"
    proof -
      have "(2 * h) * (2 * h) = 4 * (h * h)" by simp
      also have "\<dots> \<le> 4 * (n div 4)" using IH(1) by simp
      also have "\<dots> \<le> n" by simp
      finally show ?thesis .
    qed
    have hi: "n < (2 * h + 2) * (2 * h + 2)"
    proof -
      have "n < 4 * (n div 4) + 4" by presburger
      also have "\<dots> \<le> 4 * ((h + 1) * (h + 1))" using IH(2) by simp
      also have "\<dots> = (2 * h + 2) * (2 * h + 2)" by (simp add: algebra_simps)
      finally show ?thesis .
    qed
    have step: "isqrt n = isqrt_step n h" using False by (simp add: isqrt.simps [of n] h_def)
    show ?thesis
    proof (cases "(2 * h + 1) * (2 * h + 1) \<le> n")
      case True
      then have "isqrt n = 2 * h + 1" by (simp add: step isqrt_step_def)
      moreover have "2 * h + 1 + 1 = 2 * h + 2" by simp
      ultimately show ?thesis using True hi by simp
    next
      case False
      then have "isqrt n = 2 * h" by (simp add: step isqrt_step_def)
      then show ?thesis using False lo by simp
    qed
  qed
qed

lemma sqrt_round_one: "sqrt_round (2 ^ 149) = 2 ^ 149"
proof -
  have i1: "isqrt (2 ^ 149 * 2 ^ 149) = 2 ^ 149"
    by (simp add: isqrt.simps isqrt_step_def)
  have b1: "bitlen (2 ^ 149) = 150"
    by (simp add: bitlen.simps)
  have k: "(150::nat) - 24 = 126" by simp
  have d: "(2 ^ 149 * 2 ^ 149) div 4 ^ 126 = (2::nat) ^ 46" by simp
  have i2: "isqrt (2 ^ 46) = 2 ^ 23"
    by (simp add: isqrt.simps isqrt_step_def)
  show ?thesis
    unfolding sqrt_round_def Let_def i1 b1 k d i2 by simp
qed

lemma Sqrt_one: "Sqrt f32_1 = f32_1"
proof -
  have "Sqrt (Finite False (2 ^ 149)) = Finite False (sqrt_round (2 ^ 149))" by simp
  then show ?thesis by (simp only: f32_1_def sqrt_round_one)
qed

subsection \<open>Vectors\<close>

lemma Vec3_Normalized_zero:
  assumes "is_zero (Vec3.X a)" "is_zero (Vec3.Y a)" "is_zero (Vec3.Z a)"
  shows "Vec3_Normalized a = \<lparr>Vec3.X = NaN, Y = NaN, Z = NaN\<rparr>"
  using assms
  by (simp add: Vec3_Normalized_def fmul_zero_self fadd_zero_zero Sqrt_zero
      zero_fdiv_zero is_zero_f32_0)

lemma Vec4_Normalized_zero:
  assumes "is_zero (Vec4.X a)" "is_zero (Vec4.Y a)" "is_zero (Vec4.Z a)" "is_zero (Vec4.W a)"
  shows "Vec4_Normalized a = \<lparr>Vec4.X = NaN, Y = NaN, Z = NaN, W = NaN\<rparr>"
  using assms
  by (simp add: Vec4_Normalized_def fmul_zero_self fadd_zero_zero Sqrt_zero
      zero_fdiv_zero is_zero_f32_0)

lemma Vec3_Normalized_zero_axis:
  "Vec3_Normalized Vec3_zero = \<lparr>Vec3.X = NaN, Y = NaN, Z = NaN\<rparr>"
  by (rule Vec3_Normalized_zero) (simp_all add: Vec3_zero_def is_zero_f32_0)

lemma Vec3_Normalized_e_z: "Vec3_Normalized Vec3_e_z = Vec3_e_z"
proof -
  have "fmul f32_0 f32_0 = f32_0" by (simp add: fmul_zero_self is_zero_f32_0)
  moreover have "fmul f32_1 f32_1 = f32_1" by (simp add: fmul_one is_float32_samples)
  moreover have "fadd f32_0 f32_1 = f32_1"
    by (simp add: f32_0_def f32_1_def sval_def f32_round_exact [of _ 1, simplified] is_magnitude_def bitlen.simps)
  ultimately show ?thesis
    by (simp add: Vec3_Normalized_def Vec3_e_z_def fadd_zero_zero Sqrt_one fdiv_one
        is_float32_samples)
qed

lemma Vec3_Cross_ones: "Vec3_Cross Vec3_ones Vec3_ones = \<lparr>Vec3.X = f32_0, Y = f32_0, Z = f32_0\<rparr>"
  by (simp add: Vec3_Cross_def Vec3_ones_def fmul_one is_float32_samples)
    (simp add: f32_0_def f32_1_def)

lemma Vec3_Cross_huge: "Vec3.Z (Vec3_Cross Vec3_huge Vec3_huge) = NaN"
  by (simp add: Vec3_Cross_def Vec3_huge_def fmul_huge_huge)

lemma Vec3_Length_zero:
  assumes "is_zero (Vec3.X a)" "is_zero (Vec3.Y a)" "is_zero (Vec3.Z a)"
  shows "Vec3_Length a = f32_0"
  using assms by (simp add: Vec3_Length_def fmul_zero_self fadd_zero_zero Sqrt_zero)

lemma Vec4_Length_zero:
  assumes "is_zero (Vec4.X a)" "is_zero (Vec4.Y a)" "is_zero (Vec4.Z a)" "is_zero (Vec4.W a)"
  shows "Vec4_Length a = f32_0"
  using assms by (simp add: Vec4_Length_def fmul_zero_self fadd_zero_zero Sqrt_zero)

lemma Cross_fused_0yy:
  "Vec3.X (Vec3_Cross_build Fused Vec3_0yy Vec3_0yy) = Finite False (2 ^ 103)"
  unfolding Vec3_Cross_build_def Vec3_0yy_def by (simp add: fmulsub_fmul_next_1)

text \<open>\<open>Plus\<close> and \<open>Add\<close> on bit patterns have the values of \<open>Plus\<close> and \<open>Add\<close> on values.\<close>

lemma Vec3_of_bits_Plus:
  "Vec3_of_bits (Vec3_Plus_bits sw a b) = Vec3_Plus (Vec3_of_bits a) (Vec3_of_bits b)"
  by (simp add: Vec3_of_bits_def Vec3_Plus_bits_def Vec3_Plus_def f32_of_bits_go_add)

lemma Vec3_of_bits_Add:
  "Vec3_of_bits (Vec3_Add_bits sw a b) = Vec3_Add (Vec3_of_bits a) (Vec3_of_bits b)"
  by (simp add: Vec3_of_bits_def Vec3_Add_bits_def Vec3_Add_def f32_of_bits_go_add)

lemma Vec4_of_bits_Plus:
  "Vec4_of_bits (Vec4_Plus_bits sw a b) = Vec4_Plus (Vec4_of_bits a) (Vec4_of_bits b)"
  by (simp add: Vec4_of_bits_def Vec4_Plus_bits_def Vec4_Plus_def f32_of_bits_go_add)

lemma Vec4_of_bits_Add:
  "Vec4_of_bits (Vec4_Add_bits sw a b) = Vec4_Add (Vec4_of_bits a) (Vec4_of_bits b)"
  by (simp add: Vec4_of_bits_def Vec4_Add_bits_def Vec4_Add_def f32_of_bits_go_add)

lemma Vec3_Normalize_eq: "Vec3_Normalize a = Vec3_Normalized a"
  by (simp add: Vec3_Normalized_def Vec3_Normalize_def Let_def)

lemma Vec4_Normalize_eq: "Vec4_Normalize a = Vec4_Normalized a"
  by (simp add: Vec4_Normalized_def Vec4_Normalize_def Let_def)

section \<open>Pure and in-place operations\<close>

text \<open>
  C4, as stated, fails: the results of a pure operation and of its in-place counterpart
  are not bit-identical when a field is NaN. With the \<open>X\<close> fields of \<open>a\<close> and \<open>b\<close> the
  NaNs \<^verbatim>\<open>0x7FC00001\<close> and \<^verbatim>\<open>0xFFC00002\<close>, \<open>Plus\<close> with the operands of the sum in the order
  of the source returns the NaN of \<open>a\<close> in \<open>X\<close>, and \<open>Add\<close> with the receiver's field as
  the second operand returns the NaN of \<open>b\<close>.
\<close>

theorem Plus_Add_bits_counterexample:
  "Vec4_bits.X (Vec4_Plus_bits False Vec4_bits_a Vec4_bits_b) = 0x7FC00001 \<and>
   Vec4_bits.X (Vec4_Add_bits True Vec4_bits_a Vec4_bits_b) = 0xFFC00002 \<and>
   Vec4_Plus_bits False Vec4_bits_a Vec4_bits_b \<noteq> Vec4_Add_bits True Vec4_bits_a Vec4_bits_b \<and>
   Vec3_Plus_bits False Vec3_bits_a Vec3_bits_b \<noteq> Vec3_Add_bits True Vec3_bits_a Vec3_bits_b"
proof -
  have p4: "Vec4_bits.X (Vec4_Plus_bits False Vec4_bits_a Vec4_bits_b) = 0x7FC00001"
    by (simp add: Vec4_Plus_bits_def Vec4_bits_a_def Vec4_bits_b_def go_add_def addss_NaN_samples)
  have a4: "Vec4_bits.X (Vec4_Add_bits True Vec4_bits_a Vec4_bits_b) = 0xFFC00002"
    by (simp add: Vec4_Add_bits_def Vec4_bits_a_def Vec4_bits_b_def go_add_def addss_NaN_samples)
  have p3: "Vec3_bits.X (Vec3_Plus_bits False Vec3_bits_a Vec3_bits_b) = 0x7FC00001"
    by (simp add: Vec3_Plus_bits_def Vec3_bits_a_def Vec3_bits_b_def go_add_def addss_NaN_samples)
  have a3: "Vec3_bits.X (Vec3_Add_bits True Vec3_bits_a Vec3_bits_b) = 0xFFC00002"
    by (simp add: Vec3_Add_bits_def Vec3_bits_a_def Vec3_bits_b_def go_add_def addss_NaN_samples)
  have ne: "(0x7FC00001 :: 32 word) \<noteq> 0xFFC00002" by simp
  from p4 a4 ne have "Vec4_Plus_bits False Vec4_bits_a Vec4_bits_b \<noteq>
      Vec4_Add_bits True Vec4_bits_a Vec4_bits_b" by metis
  moreover from p3 a3 ne have "Vec3_Plus_bits False Vec3_bits_a Vec3_bits_b \<noteq>
      Vec3_Add_bits True Vec3_bits_a Vec3_bits_b" by metis
  ultimately show ?thesis using p4 a4 by simp
qed

text \<open>
  C4, amended. On a build that rounds each operation on its own, each pure operation
  returns the values that its in-place counterpart leaves in a copy of the receiver,
  field for field, all NaNs counting as one value: \<open>Plus\<close>/\<open>Add\<close>, \<open>Minus\<close>/\<open>Subtract\<close>,
  \<open>Inverse\<close>/\<open>Invert\<close>, \<open>Times\<close>/\<open>Multiply\<close>, \<open>Slash\<close>/\<open>Divide\<close> and
  \<open>Normalized\<close>/\<open>Normalize\<close>, for \<^verbatim>\<open>Vec3\<close> and for \<^verbatim>\<open>Vec4\<close>, for all operands. Two bit
  patterns of one value are the same pattern unless the value is NaN, so a field that
  is not NaN is bit-identical in the two results, and a field that is NaN in one is
  NaN in the other, where its sign and payload bits may differ. For \<open>Plus\<close> and \<open>Add\<close>
  on bit patterns this is shown field by field, whatever the order of the operands of
  the machine's sum in either method.
\<close>

theorem pure_eq_in_place:
  "Vec3_Plus a b = Vec3_Add a b \<and>
   Vec3_Minus a b = Vec3_Subtract a b \<and>
   Vec3_Inverse a = Vec3_Invert a \<and>
   Vec3_Times a s = Vec3_Multiply a s \<and>
   Vec3_Slash a s = Vec3_Divide a s \<and>
   Vec3_Normalized a = Vec3_Normalize a \<and>
   Vec4_Plus p q = Vec4_Add p q \<and>
   Vec4_Minus p q = Vec4_Subtract p q \<and>
   Vec4_Inverse p = Vec4_Invert p \<and>
   Vec4_Times p s = Vec4_Multiply p s \<and>
   Vec4_Slash p s = Vec4_Divide p s \<and>
   Vec4_Normalized p = Vec4_Normalize p \<and>
   (f32_of_bits w = f32_of_bits w' \<longrightarrow> same_bits_or_NaN w w') \<and>
   same_bits_or_NaN (Vec3_bits.X (Vec3_Plus_bits sw x y)) (Vec3_bits.X (Vec3_Add_bits sw' x y)) \<and>
   same_bits_or_NaN (Vec3_bits.Y (Vec3_Plus_bits sw x y)) (Vec3_bits.Y (Vec3_Add_bits sw' x y)) \<and>
   same_bits_or_NaN (Vec3_bits.Z (Vec3_Plus_bits sw x y)) (Vec3_bits.Z (Vec3_Add_bits sw' x y)) \<and>
   same_bits_or_NaN (Vec4_bits.X (Vec4_Plus_bits sw u v)) (Vec4_bits.X (Vec4_Add_bits sw' u v)) \<and>
   same_bits_or_NaN (Vec4_bits.Y (Vec4_Plus_bits sw u v)) (Vec4_bits.Y (Vec4_Add_bits sw' u v)) \<and>
   same_bits_or_NaN (Vec4_bits.Z (Vec4_Plus_bits sw u v)) (Vec4_bits.Z (Vec4_Add_bits sw' u v)) \<and>
   same_bits_or_NaN (Vec4_bits.W (Vec4_Plus_bits sw u v)) (Vec4_bits.W (Vec4_Add_bits sw' u v))"
proof -
  have v3: "Vec3_Plus a b = Vec3_Add a b" "Vec3_Minus a b = Vec3_Subtract a b"
    "Vec3_Inverse a = Vec3_Invert a" "Vec3_Times a s = Vec3_Multiply a s"
    "Vec3_Slash a s = Vec3_Divide a s" "Vec3_Normalized a = Vec3_Normalize a"
    by (simp_all add: Vec3_Plus_def Vec3_Add_def Vec3_Minus_def Vec3_Subtract_def
        Vec3_Inverse_def Vec3_Invert_def Vec3_Times_def Vec3_Multiply_def
        Vec3_Slash_def Vec3_Divide_def Vec3_Normalized_def Vec3_Normalize_def Let_def)
  have v4: "Vec4_Plus p q = Vec4_Add p q" "Vec4_Minus p q = Vec4_Subtract p q"
    "Vec4_Inverse p = Vec4_Invert p" "Vec4_Times p s = Vec4_Multiply p s"
    "Vec4_Slash p s = Vec4_Divide p s" "Vec4_Normalized p = Vec4_Normalize p"
    by (simp_all add: Vec4_Plus_def Vec4_Add_def Vec4_Minus_def Vec4_Subtract_def
        Vec4_Inverse_def Vec4_Invert_def Vec4_Times_def Vec4_Multiply_def
        Vec4_Slash_def Vec4_Divide_def Vec4_Normalized_def Vec4_Normalize_def Let_def)
  have inj: "f32_of_bits w = f32_of_bits w' \<longrightarrow> same_bits_or_NaN w w'"
    by (simp add: same_value_same_bits)
  have add: "same_bits_or_NaN (go_add sw c d) (go_add sw' c d)" for c d
    by (rule same_value_same_bits) (simp add: f32_of_bits_go_add)
  have b3: "same_bits_or_NaN (Vec3_bits.X (Vec3_Plus_bits sw x y)) (Vec3_bits.X (Vec3_Add_bits sw' x y))"
    "same_bits_or_NaN (Vec3_bits.Y (Vec3_Plus_bits sw x y)) (Vec3_bits.Y (Vec3_Add_bits sw' x y))"
    "same_bits_or_NaN (Vec3_bits.Z (Vec3_Plus_bits sw x y)) (Vec3_bits.Z (Vec3_Add_bits sw' x y))"
    by (simp_all add: Vec3_Plus_bits_def Vec3_Add_bits_def add)
  have b4: "same_bits_or_NaN (Vec4_bits.X (Vec4_Plus_bits sw u v)) (Vec4_bits.X (Vec4_Add_bits sw' u v))"
    "same_bits_or_NaN (Vec4_bits.Y (Vec4_Plus_bits sw u v)) (Vec4_bits.Y (Vec4_Add_bits sw' u v))"
    "same_bits_or_NaN (Vec4_bits.Z (Vec4_Plus_bits sw u v)) (Vec4_bits.Z (Vec4_Add_bits sw' u v))"
    "same_bits_or_NaN (Vec4_bits.W (Vec4_Plus_bits sw u v)) (Vec4_bits.W (Vec4_Add_bits sw' u v))"
    by (simp_all add: Vec4_Plus_bits_def Vec4_Add_bits_def add)
  from v3 v4 inj b3 b4 show ?thesis by (simp only: simp_thms)
qed

theorem pure_eq_in_place_witness:
  "f32_of_bits 0x3F800000 = f32_of_bits 0x3F800000 \<and>
   same_bits_or_NaN 0x3F800000 0x3F800000 \<and>
   same_bits_or_NaN (Vec4_bits.X (Vec4_Plus_bits False Vec4_bits_a Vec4_bits_b))
                    (Vec4_bits.X (Vec4_Add_bits True Vec4_bits_a Vec4_bits_b)) \<and>
   same_bits_or_NaN (Vec4_bits.Y (Vec4_Plus_bits False Vec4_bits_a Vec4_bits_b))
                    (Vec4_bits.Y (Vec4_Add_bits True Vec4_bits_a Vec4_bits_b)) \<and>
   Vec3_Plus Vec3_123 Vec3_special = Vec3_Add Vec3_123 Vec3_special"
  using pure_eq_in_place [of Vec3_123 Vec3_special _ _ _ "0x3F800000" "0x3F800000"
      False _ _ True Vec4_bits_a Vec4_bits_b]
  by simp

section \<open>The cross product of Vec4\<close>

text \<open>
  C3. For all \<^verbatim>\<open>Vec4\<close> values \<open>a\<close> and \<open>b\<close>, the \<open>X\<close>, \<open>Y\<close>, \<open>Z\<close> fields of \<open>a.Cross(b)\<close> are the
  \<^verbatim>\<open>Vec3\<close> cross product of the \<open>X\<close>, \<open>Y\<close>, \<open>Z\<close> parts of \<open>a\<close> and \<open>b\<close>; its \<open>W\<close> field is
  \<open>a.W\<close> itself, and the result does not depend on \<open>b.W\<close>.
\<close>

theorem Vec4_Cross_xyz_and_W:
  "Vec4_xyz (Vec4_Cross a b) = Vec3_Cross (Vec4_xyz a) (Vec4_xyz b) \<and>
   Vec4.W (Vec4_Cross a b) = Vec4.W a \<and>
   Vec4_Cross a (b\<lparr>Vec4.W := w\<rparr>) = Vec4_Cross a b"
  by (simp add: Vec4_Cross_def Vec3_Cross_def Vec4_xyz_def)

section \<open>Rotations\<close>

lemma feq_zero_zero: "feq f32_0 f32_0"
  by (simp add: f32_0_def)

text \<open>
  C5. A rotation by the angle \<^verbatim>\<open>0.0\<close> returns the vector it is given, whatever the
  vector (NaN and signed zeros included), the axis and the functions \<^verbatim>\<open>math.Cos\<close> and
  \<^verbatim>\<open>math.Sin\<close>: the result does not go through them.
\<close>

theorem Rotate_by_zero:
  "Vec3_RotateX Cos Sin v f32_0 = v \<and>
   Vec3_RotateY Cos Sin v f32_0 = v \<and>
   Vec3_RotateZ Cos Sin v f32_0 = v \<and>
   Vec3_RotateAxis Cos Sin v axis f32_0 = v"
  by (simp add: Vec3_RotateX_def Vec3_RotateY_def Vec3_RotateZ_def Vec3_RotateAxis_def
      feq_zero_zero)

text \<open>
  C9. A rotation about a principal axis returns the component along that axis as it
  was given, for every vector and every angle, on the \<^verbatim>\<open>angle == 0.0\<close> path and on the
  other one.
\<close>

theorem Rotate_keeps_axis_component:
  "Vec3.X (Vec3_RotateX Cos Sin v angle) = Vec3.X v \<and>
   Vec3.Y (Vec3_RotateY Cos Sin v angle) = Vec3.Y v \<and>
   Vec3.Z (Vec3_RotateZ Cos Sin v angle) = Vec3.Z v"
  by (simp add: Vec3_RotateX_def Vec3_RotateY_def Vec3_RotateZ_def Let_def)

text \<open>
  C10. With the axis \<^verbatim>\<open>Vec3{0,0,0}\<close> and an angle that does not take the \<^verbatim>\<open>angle == 0.0\<close>
  path, every component of the result of \<open>RotateAxis\<close> is NaN, for every vector and every
  \<^verbatim>\<open>math.Cos\<close> and \<^verbatim>\<open>math.Sin\<close>: the axis is divided by its length \<open>+0\<close>, \<open>u\<close> is NaN
  throughout, and so is every entry of the matrix and every dot product.
\<close>

theorem RotateAxis_zero_axis:
  "\<not> feq angle f32_0 \<Longrightarrow>
     Vec3_RotateAxis Cos Sin v Vec3_zero angle = \<lparr>Vec3.X = NaN, Y = NaN, Z = NaN\<rparr>"
  by (simp add: Vec3_RotateAxis_def Vec3_Normalized_zero_axis Vec3_Dot_def Let_def
      fadd_NaN_right fsub_NaN_right fmul_NaN_right)

theorem RotateAxis_zero_axis_witness:
  "\<not> feq f32_half_pi f32_0 \<and>
   Vec3_RotateAxis Cos_at Sin_at Vec3_123 Vec3_zero f32_half_pi =
     \<lparr>Vec3.X = NaN, Y = NaN, Z = NaN\<rparr>"
  using RotateAxis_zero_axis [of f32_half_pi Cos_at Sin_at Vec3_123] not_feq_half_pi_zero
  by simp

subsection \<open>Rotation about the z axis\<close>

text \<open>
  The rows \<open>rm0\<close>, \<open>rm1\<close>, \<open>rm2\<close> of \<open>RotateAxis\<close> are not those of the rotation matrix of
  Rodrigues' formula: \<open>rm0.Z\<close> adds \<open>s*u.Z\<close> where the formula has \<open>s*u.Y\<close>, \<open>rm1.X\<close>
  multiplies \<open>u.X*u.X\<close> where it has \<open>u.X*u.Y\<close>, and \<open>rm2.Y\<close> multiplies by \<open>c\<close> where it
  has \<open>1 - c\<close>. With the axis \<open>(0, 0, 1)\<close> the first row is \<open>(c, -s, s)\<close> instead of
  \<open>(c, -s, 0)\<close>, so the \<open>X\<close> component of the result takes \<open>s * v.Z\<close> in.

  C1 says that \<open>v.RotateAxis(Vec3{0,0,1}, angle)\<close> is \<open>v.RotateZ(angle)\<close>. It is not, for
  \<open>v = (0, 0, 1)\<close> and every angle off the \<^verbatim>\<open>angle == 0.0\<close> path whose cosine is finite
  and whose sine is finite and not zero, whatever \<^verbatim>\<open>math.Cos\<close> and \<^verbatim>\<open>math.Sin\<close> are: the
  \<open>X\<close> component of \<open>RotateZ\<close> is a zero, that of \<open>RotateAxis\<close> is the sine of the angle
  (the proof does not bound \<open>1 - c\<close> and leaves a NaN open, which is not a zero
  either). The two vectors differ as values and under Go's \<^verbatim>\<open>==\<close>.
\<close>

theorem RotateAxis_about_z_is_not_RotateZ:
  assumes "\<not> feq angle f32_0"
    and "is_finite (Cos angle)"
    and "is_finite (Sin angle)" and "is_float32 (Sin angle)" and "\<not> is_zero (Sin angle)"
  shows "is_zero (Vec3.X (Vec3_RotateZ Cos Sin Vec3_e_z angle)) \<and>
         this_or_NaN (Sin angle) (Vec3.X (Vec3_RotateAxis Cos Sin Vec3_e_z Vec3_e_z angle)) \<and>
         Vec3_RotateAxis Cos Sin Vec3_e_z Vec3_e_z angle \<noteq> Vec3_RotateZ Cos Sin Vec3_e_z angle \<and>
         \<not> Vec3_eq (Vec3_RotateAxis Cos Sin Vec3_e_z Vec3_e_z angle)
                    (Vec3_RotateZ Cos Sin Vec3_e_z angle)"
proof -
  define c where "c = Cos angle"
  define s where "s = Sin angle"
  define onemc where "onemc = fsub f32_1 c"
  define x0 where "x0 = fadd (fmul f32_0 f32_0) (fmul c (fsub f32_1 (fmul f32_0 f32_0)))"
  define y0 where "y0 = fsub (fmul (fmul f32_0 f32_0) onemc) (fmul s f32_1)"
  define z0 where "z0 = fadd (fmul (fmul f32_0 f32_1) onemc) (fmul s f32_1)"
  have fin: "is_finite c" "is_finite s" "is_float32 s" "\<not> is_zero s"
    using assms by (simp_all add: c_def s_def)
  have rz: "Vec3.X (Vec3_RotateZ Cos Sin Vec3_e_z angle) = fsub (fmul f32_0 c) (fmul f32_0 s)"
    using assms(1) by (simp add: Vec3_RotateZ_def Vec3_e_z_def Let_def c_def s_def)
  have ra: "Vec3.X (Vec3_RotateAxis Cos Sin Vec3_e_z Vec3_e_z angle) =
              fadd (fadd (fmul f32_0 x0) (fmul f32_0 y0)) (fmul f32_1 z0)"
    using assms(1)
    by (simp add: Vec3_RotateAxis_def Vec3_Normalized_e_z Let_def Vec3_Dot_def
        c_def s_def onemc_def x0_def y0_def z0_def)
      (simp add: Vec3_e_z_def Vec3_zero_def)
  have zero: "is_zero (fsub (fmul f32_0 c) (fmul f32_0 s))"
    using fin by (intro fsub_zero_zero fmul_zero_finite is_zero_f32_0)
  have "zero_or_NaN (fmul (fmul f32_0 f32_1) onemc)"
    by (intro fmul_zero_or_NaN_left fmul_zero_left is_zero_f32_0)
  moreover have "fmul s f32_1 = s" using fin by (simp add: fmul_one)
  ultimately have z0: "this_or_NaN s z0"
    unfolding z0_def using fin zero_fadd [of _ s] by simp
  have "fmul f32_1 z0 = z0" unfolding z0_def by (intro one_fmul is_float32_fadd)
  moreover have "zero_or_NaN (fadd (fmul f32_0 x0) (fmul f32_0 y0))"
    by (intro fadd_zero_or_NaN fmul_zero_left is_zero_f32_0)
  ultimately have x: "this_or_NaN s (fadd (fadd (fmul f32_0 x0) (fmul f32_0 y0)) (fmul f32_1 z0))"
    using z0 fin zero_fadd_this_or_NaN [of _ s z0] by simp
  have ne: "\<not> feq (Vec3.X (Vec3_RotateAxis Cos Sin Vec3_e_z Vec3_e_z angle))
                   (Vec3.X (Vec3_RotateZ Cos Sin Vec3_e_z angle))"
    "Vec3.X (Vec3_RotateAxis Cos Sin Vec3_e_z Vec3_e_z angle) \<noteq>
     Vec3.X (Vec3_RotateZ Cos Sin Vec3_e_z angle)"
    unfolding rz ra using not_feq_zero [OF x fin(2) fin(4) zero] by simp_all
  from ne(2) have "Vec3_RotateAxis Cos Sin Vec3_e_z Vec3_e_z angle \<noteq>
      Vec3_RotateZ Cos Sin Vec3_e_z angle" by auto
  with ne(1) zero x show ?thesis
    unfolding Vec3_eq_def rz ra s_def by simp
qed

theorem RotateAxis_about_z_is_not_RotateZ_witness:
  "\<not> feq f32_half_pi f32_0 \<and> is_finite (Cos_at f32_half_pi) \<and>
   is_finite (Sin_at f32_half_pi) \<and> is_float32 (Sin_at f32_half_pi) \<and>
   \<not> is_zero (Sin_at f32_half_pi) \<and>
   Vec3_RotateAxis Cos_at Sin_at Vec3_e_z Vec3_e_z f32_half_pi \<noteq>
     Vec3_RotateZ Cos_at Sin_at Vec3_e_z f32_half_pi"
proof -
  have h: "is_finite (Cos_at f32_half_pi)" "is_finite (Sin_at f32_half_pi)"
    "is_float32 (Sin_at f32_half_pi)" "\<not> is_zero (Sin_at f32_half_pi)"
    by (simp_all add: trig_at_half_pi is_float32_samples)
      (simp_all add: f32_cos_half_pi_def f32_1_def)
  from RotateAxis_about_z_is_not_RotateZ [of f32_half_pi Cos_at Sin_at]
    not_feq_half_pi_zero h
  show ?thesis by simp
qed

text \<open>
  The two results at the angle \<open>f32_half_pi\<close>, with the cosine and the sine of that
  angle: \<open>RotateAxis\<close> gives \<open>(1, 0, 1)\<close> and \<open>RotateZ\<close> gives \<open>(-0, 0, 1)\<close>.
\<close>

lemma onemc_half_pi: "fsub f32_1 f32_cos_half_pi = f32_1"
  by (simp add: f32_0_def f32_1_def f32_cos_half_pi_def f32_round_def round_even_def
      sval_def bitlen.simps Let_def)

lemma RotateZ_at_half_pi:
  "Vec3_RotateZ Cos_at Sin_at Vec3_e_z f32_half_pi = \<lparr>Vec3.X = Finite True 0, Y = f32_0, Z = f32_1\<rparr>"
  by (simp add: Vec3_RotateZ_def not_feq_half_pi_zero trig_at_half_pi Vec3_e_z_def)
    (simp add: f32_0_def f32_1_def f32_cos_half_pi_def f32_round_def round_even_def
      sval_def bitlen.simps Let_def)

lemma RotateAxis_at_half_pi:
  "Vec3_RotateAxis Cos_at Sin_at Vec3_e_z Vec3_e_z f32_half_pi = \<lparr>Vec3.X = f32_1, Y = f32_0, Z = f32_1\<rparr>"
  by (simp add: Vec3_RotateAxis_def not_feq_half_pi_zero trig_at_half_pi Vec3_Normalized_e_z
      onemc_half_pi Vec3_Dot_def)
    (simp add: Vec3_e_z_def Vec3_zero_def f32_0_def f32_1_def f32_cos_half_pi_def
      f32_round_def round_even_def sval_def bitlen.simps Let_def)

section \<open>Algebraic properties\<close>

text \<open>
  C6. Homogenizing sets \<open>W\<close> to \<open>1.0\<close>, and dehomogenizing the result returns the
  vector: every field, a NaN, an infinity or a signed zero included, is the value it
  was, as \<open>x / 1.0\<close> is \<open>x\<close> for every binary32 value. The hypothesis says that the
  fields are binary32 values. The equality is the identity of values; by \<open>feq_refl\<close>
  the two vectors also compare equal under Go's \<^verbatim>\<open>==\<close> when no field is NaN.
\<close>

theorem Homogenized_Dehomogenized:
  "Vec3_ok v \<Longrightarrow>
     Vec4.W (Vec3_Homogenized v) = f32_1 \<and> Vec4_Dehomogenized (Vec3_Homogenized v) = v"
  by (simp add: Vec3_ok_def Vec3_Homogenized_def Vec4_Dehomogenized_def fdiv_one)

theorem Homogenized_Dehomogenized_witness:
  "Vec3_ok Vec3_123 \<and> Vec4_Dehomogenized (Vec3_Homogenized Vec3_123) = Vec3_123 \<and>
   Vec3_ok Vec3_special \<and> Vec4_Dehomogenized (Vec3_Homogenized Vec3_special) = Vec3_special"
proof -
  have ok: "Vec3_ok Vec3_123" "Vec3_ok Vec3_special"
    by (simp_all add: Vec3_ok_def Vec3_123_def Vec3_special_def is_float32_samples
        is_magnitude_0)
  with Homogenized_Dehomogenized [of Vec3_123] Homogenized_Dehomogenized [of Vec3_special]
  show ?thesis by simp
qed

text \<open>
  C8. \<open>a.Minus(b)\<close> is \<open>a.Plus(b.Inverse())\<close>, for \<^verbatim>\<open>Vec3\<close> and for \<^verbatim>\<open>Vec4\<close>: the
  single-precision difference \<open>x - y\<close> is the sum \<open>x + (-y)\<close>, signed zeros and
  infinities included, and both are NaN together. The equality is the identity of
  values; by \<open>feq_refl\<close> the components also compare equal under Go's \<^verbatim>\<open>==\<close> where they
  are not NaN.
\<close>

theorem Minus_eq_Plus_Inverse:
  "Vec3_Minus a b = Vec3_Plus a (Vec3_Inverse b) \<and>
   Vec4_Minus p q = Vec4_Plus p (Vec4_Inverse q)"
  by (simp add: Vec3_Minus_def Vec3_Plus_def Vec3_Inverse_def
      Vec4_Minus_def Vec4_Plus_def Vec4_Inverse_def fsub_eq_fadd_fneg)

text \<open>
  C7, as stated, fails. With \<open>a = b = (1, 1, 1)\<close> every component of \<open>a.Cross(b)\<close> is
  \<open>1 - 1 = +0\<close>, and so is every component of \<open>b.Cross(a)\<close>, whose inverse is \<open>-0\<close>
  throughout: the two vectors are not the same. With \<open>a = b = (2^127, 2^127, 0)\<close> the
  products overflow, the \<open>Z\<close> component is \<open>\<infinity> - \<infinity>\<close>, a NaN, on both sides, and Go's
  \<^verbatim>\<open>==\<close> on the two vectors is false. On a build that fuses the first product with the
  subtraction, \<open>a = b = (0, y, y)\<close> with \<open>y = 1 + 2^-23\<close> gives \<open>X = y*y - round (y*y) =
  2^-46\<close> in \<open>a.Cross(b)\<close> and in \<open>b.Cross(a)\<close>, whose inverse has \<open>-2^-46\<close>: neither equal
  nor both NaN.
\<close>

theorem Cross_anticommutative_counterexample:
  "Vec3_Cross Vec3_ones Vec3_ones \<noteq> Vec3_Inverse (Vec3_Cross Vec3_ones Vec3_ones) \<and>
   \<not> Vec3_eq (Vec3_Cross Vec3_huge Vec3_huge) (Vec3_Inverse (Vec3_Cross Vec3_huge Vec3_huge)) \<and>
   \<not> eq_or_NaN (Vec3.X (Vec3_Cross_build Fused Vec3_0yy Vec3_0yy))
                (Vec3.X (Vec3_Inverse (Vec3_Cross_build Fused Vec3_0yy Vec3_0yy)))"
proof -
  have "Vec3.X (Vec3_Inverse (Vec3_Cross Vec3_ones Vec3_ones)) = Finite True 0"
    by (simp add: Vec3_Cross_ones Vec3_Inverse_def f32_0_def)
  moreover have "Vec3.X (Vec3_Cross Vec3_ones Vec3_ones) = Finite False 0"
    by (simp add: Vec3_Cross_ones f32_0_def)
  ultimately have "Vec3_Cross Vec3_ones Vec3_ones \<noteq> Vec3_Inverse (Vec3_Cross Vec3_ones Vec3_ones)"
    by (metis float32.inject(2))
  moreover have "\<not> eq_or_NaN (Vec3.X (Vec3_Cross_build Fused Vec3_0yy Vec3_0yy))
                (Vec3.X (Vec3_Inverse (Vec3_Cross_build Fused Vec3_0yy Vec3_0yy)))"
    by (simp add: Vec3_Inverse_def Cross_fused_0yy eq_or_NaN_def sval_def)
  ultimately show ?thesis by (simp add: Vec3_eq_def Vec3_Cross_huge)
qed

text \<open>
  C7, amended. On a build that rounds each product before the subtraction (one that
  does not fuse, \<open>Unfused\<close>), for all \<^verbatim>\<open>Vec3\<close> values \<open>a\<close> and \<open>b\<close>, each component of
  \<open>a.Cross(b)\<close> and the same component of \<open>b.Cross(a).Inverse()\<close> compare equal under
  \<^verbatim>\<open>==\<close> (they are the same number, up to the sign of a zero), or both are NaN. For
  \<^verbatim>\<open>Vec4\<close> the same holds of the \<open>X\<close>, \<open>Y\<close>, \<open>Z\<close> components; the \<open>W\<close> of \<open>p.Cross(q)\<close> is
  \<open>p.W\<close> and the \<open>W\<close> of \<open>q.Cross(p)\<close> is \<open>q.W\<close>, negated by \<open>Inverse\<close>.
\<close>

theorem Cross_swap:
  "eq_or_NaN (Vec3.X (Vec3_Cross_build Unfused a b))
             (Vec3.X (Vec3_Inverse (Vec3_Cross_build Unfused b a))) \<and>
   eq_or_NaN (Vec3.Y (Vec3_Cross_build Unfused a b))
             (Vec3.Y (Vec3_Inverse (Vec3_Cross_build Unfused b a))) \<and>
   eq_or_NaN (Vec3.Z (Vec3_Cross_build Unfused a b))
             (Vec3.Z (Vec3_Inverse (Vec3_Cross_build Unfused b a))) \<and>
   eq_or_NaN (Vec4.X (Vec4_Cross_build Unfused p q))
             (Vec4.X (Vec4_Inverse (Vec4_Cross_build Unfused q p))) \<and>
   eq_or_NaN (Vec4.Y (Vec4_Cross_build Unfused p q))
             (Vec4.Y (Vec4_Inverse (Vec4_Cross_build Unfused q p))) \<and>
   eq_or_NaN (Vec4.Z (Vec4_Cross_build Unfused p q))
             (Vec4.Z (Vec4_Inverse (Vec4_Cross_build Unfused q p))) \<and>
   Vec4.W (Vec4_Cross_build Unfused p q) = Vec4.W p \<and>
   Vec4.W (Vec4_Cross_build Unfused q p) = Vec4.W q \<and>
   Vec4.W (Vec4_Inverse (Vec4_Cross_build Unfused q p)) = fneg (Vec4.W q) \<and>
   Vec3_Cross_build Unfused a b = Vec3_Cross a b \<and>
   Vec4_Cross_build Unfused p q = Vec4_Cross p q"
proof -
  have sw: "eq_or_NaN (fsub (fmul x y) (fmul z w)) (fneg (fsub (fmul w z) (fmul y x)))"
    for x y z w
    using fsub_swap [of "fmul x y" "fmul z w"] by (simp add: fmul_commute [of w z] fmul_commute [of y x])
  show ?thesis
    by (simp add: Vec3_Cross_build_def Vec4_Cross_build_def Vec3_Cross_def Vec3_Inverse_def
        Vec4_Cross_def Vec4_Inverse_def sw)
qed

theorem Cross_swap_witness:
  "eq_or_NaN (Vec3.Z (Vec3_Cross_build Unfused Vec3_huge Vec3_huge))
             (Vec3.Z (Vec3_Inverse (Vec3_Cross_build Unfused Vec3_huge Vec3_huge))) \<and>
   eq_or_NaN (Vec3.X (Vec3_Cross_build Unfused Vec3_ones Vec3_ones))
             (Vec3.X (Vec3_Inverse (Vec3_Cross_build Unfused Vec3_ones Vec3_ones)))"
  using Cross_swap [where a = Vec3_huge and b = Vec3_huge and p = Vec4_zero and q = Vec4_zero]
    Cross_swap [where a = Vec3_ones and b = Vec3_ones and p = Vec4_zero and q = Vec4_zero]
  by blast

section \<open>Zero divisors\<close>

text \<open>
  C2. No operation checks its operands, and none can fail: the methods are total
  functions of their operands, with no error result, as the source tests no divisor,
  has no panic and no integer division. For every operand each result is the
  componentwise single-precision quotient: \<open>Slash\<close> and \<open>Divide\<close> divide every field by
  the scalar, \<open>Normalized\<close> and \<open>Normalize\<close> by the length, \<open>Dehomogenized\<close> by \<open>W\<close>
  (\<^verbatim>\<open>Vec4\<close>) or \<open>Z\<close> (\<^verbatim>\<open>Vec3\<close>). The quotient by a zero (\<open>+0\<close> or \<open>-0\<close>) is
  \<open>quotient_by_zero\<close>: NaN for a zero or NaN dividend and else the infinity with the
  exclusive or of the signs, in every case an infinity or a NaN. So with a zero scalar
  every field of \<open>Slash\<close> and \<open>Divide\<close> is that quotient; a vector of zeros has the length
  \<open>+0\<close> and \<open>Normalized\<close> and \<open>Normalize\<close> give NaN in every field; and with a zero \<open>W\<close>
  or \<open>Z\<close> every field of \<open>Dehomogenized\<close> is that quotient.
\<close>

theorem no_fault_on_zero_divisor:
  "Vec3_Slash a s = \<lparr>Vec3.X = fdiv (Vec3.X a) s, Y = fdiv (Vec3.Y a) s, Z = fdiv (Vec3.Z a) s\<rparr> \<and>
   Vec3_Divide a s = \<lparr>Vec3.X = fdiv (Vec3.X a) s, Y = fdiv (Vec3.Y a) s, Z = fdiv (Vec3.Z a) s\<rparr> \<and>
   Vec4_Slash p s = \<lparr>Vec4.X = fdiv (Vec4.X p) s, Y = fdiv (Vec4.Y p) s, Z = fdiv (Vec4.Z p) s,
                      W = fdiv (Vec4.W p) s\<rparr> \<and>
   Vec4_Divide p s = \<lparr>Vec4.X = fdiv (Vec4.X p) s, Y = fdiv (Vec4.Y p) s, Z = fdiv (Vec4.Z p) s,
                       W = fdiv (Vec4.W p) s\<rparr> \<and>
   Vec3_Normalized a = \<lparr>Vec3.X = fdiv (Vec3.X a) (Vec3_Length a),
                         Y = fdiv (Vec3.Y a) (Vec3_Length a),
                         Z = fdiv (Vec3.Z a) (Vec3_Length a)\<rparr> \<and>
   Vec3_Normalize a = \<lparr>Vec3.X = fdiv (Vec3.X a) (Vec3_Length a),
                        Y = fdiv (Vec3.Y a) (Vec3_Length a),
                        Z = fdiv (Vec3.Z a) (Vec3_Length a)\<rparr> \<and>
   Vec4_Normalized p = \<lparr>Vec4.X = fdiv (Vec4.X p) (Vec4_Length p),
                         Y = fdiv (Vec4.Y p) (Vec4_Length p),
                         Z = fdiv (Vec4.Z p) (Vec4_Length p),
                         W = fdiv (Vec4.W p) (Vec4_Length p)\<rparr> \<and>
   Vec4_Normalize p = \<lparr>Vec4.X = fdiv (Vec4.X p) (Vec4_Length p),
                        Y = fdiv (Vec4.Y p) (Vec4_Length p),
                        Z = fdiv (Vec4.Z p) (Vec4_Length p),
                        W = fdiv (Vec4.W p) (Vec4_Length p)\<rparr> \<and>
   Vec4_Dehomogenized p = \<lparr>Vec3.X = fdiv (Vec4.X p) (Vec4.W p),
                            Y = fdiv (Vec4.Y p) (Vec4.W p),
                            Z = fdiv (Vec4.Z p) (Vec4.W p)\<rparr> \<and>
   Vec3_Dehomogenized a = \<lparr>Vec2.X = fdiv (Vec3.X a) (Vec3.Z a),
                            Y = fdiv (Vec3.Y a) (Vec3.Z a)\<rparr> \<and>
   (is_zero z \<longrightarrow> fdiv x z = quotient_by_zero x z) \<and>
   is_Inf_or_NaN (quotient_by_zero x z) \<and>
   (is_zero s \<longrightarrow>
      Vec3_Slash a s = \<lparr>Vec3.X = quotient_by_zero (Vec3.X a) s,
                         Y = quotient_by_zero (Vec3.Y a) s,
                         Z = quotient_by_zero (Vec3.Z a) s\<rparr> \<and>
      Vec3_Divide a s = Vec3_Slash a s \<and>
      Vec4_Slash p s = \<lparr>Vec4.X = quotient_by_zero (Vec4.X p) s,
                         Y = quotient_by_zero (Vec4.Y p) s,
                         Z = quotient_by_zero (Vec4.Z p) s,
                         W = quotient_by_zero (Vec4.W p) s\<rparr> \<and>
      Vec4_Divide p s = Vec4_Slash p s) \<and>
   (is_zero (Vec3.X a) \<and> is_zero (Vec3.Y a) \<and> is_zero (Vec3.Z a) \<longrightarrow>
      Vec3_Length a = f32_0 \<and>
      Vec3_Normalized a = \<lparr>Vec3.X = NaN, Y = NaN, Z = NaN\<rparr> \<and>
      Vec3_Normalize a = \<lparr>Vec3.X = NaN, Y = NaN, Z = NaN\<rparr>) \<and>
   (is_zero (Vec4.X p) \<and> is_zero (Vec4.Y p) \<and> is_zero (Vec4.Z p) \<and> is_zero (Vec4.W p) \<longrightarrow>
      Vec4_Length p = f32_0 \<and>
      Vec4_Normalized p = \<lparr>Vec4.X = NaN, Y = NaN, Z = NaN, W = NaN\<rparr> \<and>
      Vec4_Normalize p = \<lparr>Vec4.X = NaN, Y = NaN, Z = NaN, W = NaN\<rparr>) \<and>
   (is_zero (Vec4.W p) \<longrightarrow>
      Vec4_Dehomogenized p = \<lparr>Vec3.X = quotient_by_zero (Vec4.X p) (Vec4.W p),
                               Y = quotient_by_zero (Vec4.Y p) (Vec4.W p),
                               Z = quotient_by_zero (Vec4.Z p) (Vec4.W p)\<rparr>) \<and>
   (is_zero (Vec3.Z a) \<longrightarrow>
      Vec3_Dehomogenized a = \<lparr>Vec2.X = quotient_by_zero (Vec3.X a) (Vec3.Z a),
                               Y = quotient_by_zero (Vec3.Y a) (Vec3.Z a)\<rparr>)"
proof -
  have comp: "Vec3_Slash a s = \<lparr>Vec3.X = fdiv (Vec3.X a) s, Y = fdiv (Vec3.Y a) s, Z = fdiv (Vec3.Z a) s\<rparr>"
    "Vec3_Divide a s = \<lparr>Vec3.X = fdiv (Vec3.X a) s, Y = fdiv (Vec3.Y a) s, Z = fdiv (Vec3.Z a) s\<rparr>"
    "Vec4_Slash p s = \<lparr>Vec4.X = fdiv (Vec4.X p) s, Y = fdiv (Vec4.Y p) s, Z = fdiv (Vec4.Z p) s,
                      W = fdiv (Vec4.W p) s\<rparr>"
    "Vec4_Divide p s = \<lparr>Vec4.X = fdiv (Vec4.X p) s, Y = fdiv (Vec4.Y p) s, Z = fdiv (Vec4.Z p) s,
                       W = fdiv (Vec4.W p) s\<rparr>"
    by (simp_all add: Vec3_Slash_def Vec3_Divide_def Vec4_Slash_def Vec4_Divide_def)
  have norm: "Vec3_Normalized a = \<lparr>Vec3.X = fdiv (Vec3.X a) (Vec3_Length a),
                         Y = fdiv (Vec3.Y a) (Vec3_Length a),
                         Z = fdiv (Vec3.Z a) (Vec3_Length a)\<rparr>"
    "Vec3_Normalize a = \<lparr>Vec3.X = fdiv (Vec3.X a) (Vec3_Length a),
                        Y = fdiv (Vec3.Y a) (Vec3_Length a),
                        Z = fdiv (Vec3.Z a) (Vec3_Length a)\<rparr>"
    "Vec4_Normalized p = \<lparr>Vec4.X = fdiv (Vec4.X p) (Vec4_Length p),
                         Y = fdiv (Vec4.Y p) (Vec4_Length p),
                         Z = fdiv (Vec4.Z p) (Vec4_Length p),
                         W = fdiv (Vec4.W p) (Vec4_Length p)\<rparr>"
    "Vec4_Normalize p = \<lparr>Vec4.X = fdiv (Vec4.X p) (Vec4_Length p),
                        Y = fdiv (Vec4.Y p) (Vec4_Length p),
                        Z = fdiv (Vec4.Z p) (Vec4_Length p),
                        W = fdiv (Vec4.W p) (Vec4_Length p)\<rparr>"
    by (simp_all add: Vec3_Normalized_def Vec3_Normalize_def Vec3_Length_def
        Vec4_Normalized_def Vec4_Normalize_def Vec4_Length_def Let_def)
  have deh: "Vec4_Dehomogenized p = \<lparr>Vec3.X = fdiv (Vec4.X p) (Vec4.W p),
                            Y = fdiv (Vec4.Y p) (Vec4.W p),
                            Z = fdiv (Vec4.Z p) (Vec4.W p)\<rparr>"
    "Vec3_Dehomogenized a = \<lparr>Vec2.X = fdiv (Vec3.X a) (Vec3.Z a),
                            Y = fdiv (Vec3.Y a) (Vec3.Z a)\<rparr>"
    by (simp_all add: Vec4_Dehomogenized_def Vec3_Dehomogenized_def)
  have q: "is_zero z \<longrightarrow> fdiv x z = quotient_by_zero x z" "is_Inf_or_NaN (quotient_by_zero x z)"
    by (simp_all add: fdiv_zero_exact is_Inf_or_NaN_quotient_by_zero)
  have slash: "is_zero s \<longrightarrow>
      Vec3_Slash a s = \<lparr>Vec3.X = quotient_by_zero (Vec3.X a) s,
                         Y = quotient_by_zero (Vec3.Y a) s,
                         Z = quotient_by_zero (Vec3.Z a) s\<rparr> \<and>
      Vec3_Divide a s = Vec3_Slash a s \<and>
      Vec4_Slash p s = \<lparr>Vec4.X = quotient_by_zero (Vec4.X p) s,
                         Y = quotient_by_zero (Vec4.Y p) s,
                         Z = quotient_by_zero (Vec4.Z p) s,
                         W = quotient_by_zero (Vec4.W p) s\<rparr> \<and>
      Vec4_Divide p s = Vec4_Slash p s"
    by (simp add: comp fdiv_zero_exact)
  have n3: "is_zero (Vec3.X a) \<and> is_zero (Vec3.Y a) \<and> is_zero (Vec3.Z a) \<longrightarrow>
      Vec3_Length a = f32_0 \<and>
      Vec3_Normalized a = \<lparr>Vec3.X = NaN, Y = NaN, Z = NaN\<rparr> \<and>
      Vec3_Normalize a = \<lparr>Vec3.X = NaN, Y = NaN, Z = NaN\<rparr>"
    using Vec3_Normalized_zero [of a] Vec3_Normalize_eq [of a] Vec3_Length_zero [of a] by simp
  have n4: "is_zero (Vec4.X p) \<and> is_zero (Vec4.Y p) \<and> is_zero (Vec4.Z p) \<and> is_zero (Vec4.W p) \<longrightarrow>
      Vec4_Length p = f32_0 \<and>
      Vec4_Normalized p = \<lparr>Vec4.X = NaN, Y = NaN, Z = NaN, W = NaN\<rparr> \<and>
      Vec4_Normalize p = \<lparr>Vec4.X = NaN, Y = NaN, Z = NaN, W = NaN\<rparr>"
    using Vec4_Normalized_zero [of p] Vec4_Normalize_eq [of p] Vec4_Length_zero [of p] by simp
  have d4: "is_zero (Vec4.W p) \<longrightarrow>
      Vec4_Dehomogenized p = \<lparr>Vec3.X = quotient_by_zero (Vec4.X p) (Vec4.W p),
                               Y = quotient_by_zero (Vec4.Y p) (Vec4.W p),
                               Z = quotient_by_zero (Vec4.Z p) (Vec4.W p)\<rparr>"
    by (simp add: deh fdiv_zero_exact)
  have d3: "is_zero (Vec3.Z a) \<longrightarrow>
      Vec3_Dehomogenized a = \<lparr>Vec2.X = quotient_by_zero (Vec3.X a) (Vec3.Z a),
                               Y = quotient_by_zero (Vec3.Y a) (Vec3.Z a)\<rparr>"
    by (simp add: deh fdiv_zero_exact)
  from comp norm deh q slash n3 n4 d4 d3 show ?thesis by (simp only: simp_thms)
qed

theorem no_fault_on_zero_divisor_witness:
  "is_zero f32_0 \<and> is_zero (Finite True 0) \<and>
   Vec3_Slash Vec3_123 f32_0 = \<lparr>Vec3.X = Infty False, Y = Infty False, Z = Infty False\<rparr> \<and>
   Vec3_Divide Vec3_120 (Finite True 0) = \<lparr>Vec3.X = Infty True, Y = Infty True, Z = NaN\<rparr> \<and>
   Vec4_Divide Vec4_1230 f32_0 =
     \<lparr>Vec4.X = Infty False, Y = Infty False, Z = Infty False, W = NaN\<rparr> \<and>
   is_zero (Vec3.Z Vec3_120) \<and>
   Vec3_Dehomogenized Vec3_120 = \<lparr>Vec2.X = Infty False, Y = Infty False\<rparr> \<and>
   is_zero (Vec4.W Vec4_1230) \<and>
   Vec4_Dehomogenized Vec4_1230 = \<lparr>Vec3.X = Infty False, Y = Infty False, Z = Infty False\<rparr> \<and>
   is_zero (Vec3.X Vec3_zero) \<and> is_zero (Vec3.Y Vec3_zero) \<and> is_zero (Vec3.Z Vec3_zero) \<and>
   Vec3_Normalized Vec3_zero = \<lparr>Vec3.X = NaN, Y = NaN, Z = NaN\<rparr> \<and>
   Vec3_Normalize Vec3_zero = \<lparr>Vec3.X = NaN, Y = NaN, Z = NaN\<rparr> \<and>
   is_zero (Vec4.X Vec4_zero) \<and> is_zero (Vec4.Y Vec4_zero) \<and> is_zero (Vec4.Z Vec4_zero) \<and>
   is_zero (Vec4.W Vec4_zero) \<and>
   Vec4_Normalize Vec4_zero = \<lparr>Vec4.X = NaN, Y = NaN, Z = NaN, W = NaN\<rparr>"
proof -
  have z: "is_zero f32_0" "is_zero (Finite True 0)" "is_zero (Vec3.Z Vec3_120)"
    "is_zero (Vec4.W Vec4_1230)"
    "is_zero (Vec3.X Vec3_zero)" "is_zero (Vec3.Y Vec3_zero)" "is_zero (Vec3.Z Vec3_zero)"
    "is_zero (Vec4.X Vec4_zero)" "is_zero (Vec4.Y Vec4_zero)" "is_zero (Vec4.Z Vec4_zero)"
    "is_zero (Vec4.W Vec4_zero)"
    by (simp_all add: Vec3_120_def Vec4_1230_def Vec3_zero_def Vec4_zero_def is_zero_f32_0)
  have v: "quotient_by_zero f32_1 f32_0 = Infty False" "quotient_by_zero f32_2 f32_0 = Infty False"
    "quotient_by_zero f32_3 f32_0 = Infty False" "quotient_by_zero f32_0 f32_0 = NaN"
    "quotient_by_zero f32_1 (Finite True 0) = Infty True"
    "quotient_by_zero f32_2 (Finite True 0) = Infty True"
    "quotient_by_zero f32_3 (Finite True 0) = Infty True"
    "quotient_by_zero f32_0 (Finite True 0) = NaN"
    by (simp_all add: quotient_by_zero_def f32_0_def f32_1_def f32_2_def f32_3_def)
  note t1 = no_fault_on_zero_divisor [where a = Vec3_123 and s = f32_0 and p = Vec4_1230]
  note t2 = no_fault_on_zero_divisor [where a = Vec3_120 and s = "Finite True 0" and p = Vec4_zero]
  note t3 = no_fault_on_zero_divisor [where a = Vec3_zero and s = f32_0 and p = Vec4_zero]
  from t1 z(1) have s1: "Vec3_Slash Vec3_123 f32_0 =
      \<lparr>Vec3.X = quotient_by_zero (Vec3.X Vec3_123) f32_0,
       Y = quotient_by_zero (Vec3.Y Vec3_123) f32_0,
       Z = quotient_by_zero (Vec3.Z Vec3_123) f32_0\<rparr>" by blast
  from t1 z(1) have s2: "Vec4_Divide Vec4_1230 f32_0 =
      \<lparr>Vec4.X = quotient_by_zero (Vec4.X Vec4_1230) f32_0,
       Y = quotient_by_zero (Vec4.Y Vec4_1230) f32_0,
       Z = quotient_by_zero (Vec4.Z Vec4_1230) f32_0,
       W = quotient_by_zero (Vec4.W Vec4_1230) f32_0\<rparr>" by metis
  from t1 z(4) have s3: "Vec4_Dehomogenized Vec4_1230 =
      \<lparr>Vec3.X = quotient_by_zero (Vec4.X Vec4_1230) (Vec4.W Vec4_1230),
       Y = quotient_by_zero (Vec4.Y Vec4_1230) (Vec4.W Vec4_1230),
       Z = quotient_by_zero (Vec4.Z Vec4_1230) (Vec4.W Vec4_1230)\<rparr>" by blast
  from t2 z(2) have s4: "Vec3_Divide Vec3_120 (Finite True 0) =
      \<lparr>Vec3.X = quotient_by_zero (Vec3.X Vec3_120) (Finite True 0),
       Y = quotient_by_zero (Vec3.Y Vec3_120) (Finite True 0),
       Z = quotient_by_zero (Vec3.Z Vec3_120) (Finite True 0)\<rparr>" by metis
  from t2 z(3) have s5: "Vec3_Dehomogenized Vec3_120 =
      \<lparr>Vec2.X = quotient_by_zero (Vec3.X Vec3_120) (Vec3.Z Vec3_120),
       Y = quotient_by_zero (Vec3.Y Vec3_120) (Vec3.Z Vec3_120)\<rparr>" by blast
  from t3 z have s6: "Vec3_Normalized Vec3_zero = \<lparr>Vec3.X = NaN, Y = NaN, Z = NaN\<rparr>"
    "Vec3_Normalize Vec3_zero = \<lparr>Vec3.X = NaN, Y = NaN, Z = NaN\<rparr>"
    "Vec4_Normalize Vec4_zero = \<lparr>Vec4.X = NaN, Y = NaN, Z = NaN, W = NaN\<rparr>"
    by blast+
  show ?thesis
    unfolding s1 s2 s3 s4 s5 s6
    using z by (simp add: v Vec3_123_def Vec3_120_def Vec4_1230_def f32_0_def [symmetric])
qed

end
